theory Spec2Isabelle
  imports Complex_Main
begin

section \<open>Python values and the operations the module applies to them\<close>

text \<open>
  Every frame reaches the module through \<^verbatim>\<open>json.loads\<close>, so the values it handles are
  decoded JSON: \<^verbatim>\<open>None\<close>, booleans, integers, floats, strings, lists and dicts. A dict
  is kept as the list of its items, in order; \<open>map_of\<close> reads it. A float is kept as the
  exact rational value of the finite double. Strings are ASCII text.
\<close>

datatype json =
    JNull
  | JBool bool
  | JInt int
  | JFloat rat
  | JStr string
  | JList "json list"
  | JObj "(string \<times> json) list"

text \<open>The exceptions that the modelled code paths can raise.\<close>

datatype pyerr =
    KeyError
  | IndexError
  | TypeError
  | ValueError
  | AttributeError
  | NameError
  | ConnectionClosedError
  | ConnectError
  | CallbackError

text \<open>
  The builtin constructors \<^verbatim>\<open>int\<close>, \<^verbatim>\<open>float\<close> and \<^verbatim>\<open>str\<close> applied to a decoded value belong
  to the Python runtime, not to the module: they are parameters of the model.
\<close>

record runtime =
  py_int :: "json \<Rightarrow> pyerr + int"
  py_float :: "json \<Rightarrow> pyerr + rat"
  py_str :: "json \<Rightarrow> string"

text \<open>\<^verbatim>\<open>str(x)\<close>: a string is returned as it is.\<close>

definition str_of :: "runtime \<Rightarrow> json \<Rightarrow> string" where
  "str_of R v = (case v of JStr s \<Rightarrow> s | _ \<Rightarrow> py_str R v)"

text \<open>\<^verbatim>\<open>str(n)\<close> for the non-negative integer values of the field enums.\<close>

definition digit_char :: "nat \<Rightarrow> char" where
  "digit_char d = ''0123456789'' ! d"

fun str_nat :: "nat \<Rightarrow> string" where
  "str_nat n = (if n < 10 then [digit_char n] else str_nat (n div 10) @ [digit_char (n mod 10)])"

declare str_nat.simps [simp del]

text \<open>\<^verbatim>\<open>s.strip()\<close>, \<^verbatim>\<open>s.upper()\<close> and \<^verbatim>\<open>s.lower()\<close> on ASCII text.\<close>

definition is_space :: "char \<Rightarrow> bool" where
  "is_space c = (let n = (of_char c :: nat) in (9 \<le> n \<and> n \<le> 13) \<or> (28 \<le> n \<and> n \<le> 32))"

definition strip :: "string \<Rightarrow> string" where
  "strip s = rev (dropWhile is_space (rev (dropWhile is_space s)))"

definition upper_char :: "char \<Rightarrow> char" where
  "upper_char c =
     (case map_of (zip ''abcdefghijklmnopqrstuvwxyz'' ''ABCDEFGHIJKLMNOPQRSTUVWXYZ'') c of
        None \<Rightarrow> c
      | Some u \<Rightarrow> u)"

definition lower_char :: "char \<Rightarrow> char" where
  "lower_char c =
     (case map_of (zip ''ABCDEFGHIJKLMNOPQRSTUVWXYZ'' ''abcdefghijklmnopqrstuvwxyz'') c of
        None \<Rightarrow> c
      | Some l \<Rightarrow> l)"

definition upper :: "string \<Rightarrow> string" where
  "upper s = map upper_char s"

definition lower :: "string \<Rightarrow> string" where
  "lower s = map lower_char s"

text \<open>\<^verbatim>\<open>p in s\<close> for two strings: \<open>p\<close> occurs in \<open>s\<close> as a contiguous run.\<close>

fun starts_with :: "string \<Rightarrow> string \<Rightarrow> bool" where
  "starts_with [] s = True"
| "starts_with (p # ps) [] = False"
| "starts_with (p # ps) (c # cs) = (p = c \<and> starts_with ps cs)"

fun occurs_in :: "string \<Rightarrow> string \<Rightarrow> bool" where
  "occurs_in p [] = (p = [])"
| "occurs_in p (c # cs) = (starts_with p (c # cs) \<or> occurs_in p cs)"

text \<open>\<^verbatim>\<open>k in x\<close> for a string \<open>k\<close>: a key of a dict, an element of a list, a substring
  of a string; any other value is not iterable.\<close>

definition py_in :: "string \<Rightarrow> json \<Rightarrow> pyerr + bool" where
  "py_in k x = (case x of
      JObj kvs \<Rightarrow> Inr (k \<in> set (map fst kvs))
    | JList xs \<Rightarrow> Inr (JStr k \<in> set xs)
    | JStr s \<Rightarrow> Inr (occurs_in k s)
    | _ \<Rightarrow> Inl TypeError)"

text \<open>\<^verbatim>\<open>x[k]\<close> for a string \<open>k\<close>: only a dict can be read by a string key.\<close>

definition subscript :: "json \<Rightarrow> string \<Rightarrow> pyerr + json" where
  "subscript x k = (case x of
      JObj kvs \<Rightarrow> (case map_of kvs k of None \<Rightarrow> Inl KeyError | Some v \<Rightarrow> Inr v)
    | _ \<Rightarrow> Inl TypeError)"

text \<open>\<^verbatim>\<open>x[0]\<close>: the first element of a list or the first character of a string; a
  decoded dict has string keys only, so \<open>0\<close> is never one of them.\<close>

definition subscript0 :: "json \<Rightarrow> pyerr + json" where
  "subscript0 x = (case x of
      JList [] \<Rightarrow> Inl IndexError
    | JList (v # vs) \<Rightarrow> Inr v
    | JStr [] \<Rightarrow> Inl IndexError
    | JStr (c # cs) \<Rightarrow> Inr (JStr [c])
    | JObj kvs \<Rightarrow> Inl KeyError
    | _ \<Rightarrow> Inl TypeError)"

text \<open>\<^verbatim>\<open>len(x)\<close>.\<close>

definition py_len :: "json \<Rightarrow> pyerr + nat" where
  "py_len x = (case x of
      JList xs \<Rightarrow> Inr (length xs)
    | JObj kvs \<Rightarrow> Inr (length kvs)
    | JStr s \<Rightarrow> Inr (length s)
    | _ \<Rightarrow> Inl TypeError)"

text \<open>\<^verbatim>\<open>for v in x\<close>: the elements of a list, the keys of a dict, the characters of a
  string.\<close>

definition py_iter :: "json \<Rightarrow> pyerr + json list" where
  "py_iter x = (case x of
      JList xs \<Rightarrow> Inr xs
    | JObj kvs \<Rightarrow> Inr (map (\<lambda>kv. JStr (fst kv)) kvs)
    | JStr s \<Rightarrow> Inr (map (\<lambda>c. JStr [c]) s)
    | _ \<Rightarrow> Inl TypeError)"

text \<open>\<^verbatim>\<open>x != 0\<close>: Python compares numbers by value, and \<^verbatim>\<open>False == 0\<close>.\<close>

definition ne_zero :: "json \<Rightarrow> bool" where
  "ne_zero x = (case x of
      JInt n \<Rightarrow> n \<noteq> 0
    | JBool b \<Rightarrow> b
    | JFloat q \<Rightarrow> q \<noteq> 0
    | _ \<Rightarrow> True)"

section \<open>Enumerations\<close>

text \<open>
  An \<^verbatim>\<open>Enum\<close> class as far as lookup by value sees it: its members with their values
  in declaration order, and the class attribute \<^verbatim>\<open>UNSUPPORTED\<close> when the class
  defines one.
\<close>

record 'm enum_class =
  members :: "('m \<times> string) list"
  UNSUPPORTED :: "'m option"

text \<open>
  \<^verbatim>\<open>_enum_case_insensitive_search_by_value(cls, name)\<close>. \<^verbatim>\<open>name.strip()\<close> exists for
  strings only; reading \<^verbatim>\<open>cls.UNSUPPORTED\<close> on a class without that member raises
  \<^verbatim>\<open>AttributeError\<close>.
\<close>

definition enum_case_insensitive_search_by_value :: "'m enum_class \<Rightarrow> json \<Rightarrow> pyerr + 'm" where
  "enum_case_insensitive_search_by_value cls name = (case name of
      JStr s \<Rightarrow>
        (case filter (\<lambda>member. lower (snd member) = lower (strip s)) (members cls) of
           m # matches \<Rightarrow> Inr (fst m)
         | [] \<Rightarrow> (case UNSUPPORTED cls of None \<Rightarrow> Inl AttributeError | Some u \<Rightarrow> Inr u))
    | _ \<Rightarrow> Inl AttributeError)"

text \<open>
  \<^verbatim>\<open>cls(value)\<close> for a class whose \<^verbatim>\<open>_missing_\<close> is the search above: the member with
  exactly that value, otherwise what \<^verbatim>\<open>_missing_\<close> returns or raises.
\<close>

definition enum_call :: "'m enum_class \<Rightarrow> json \<Rightarrow> pyerr + 'm" where
  "enum_call cls x = (case x of
      JStr s \<Rightarrow>
        (case filter (\<lambda>member. snd member = s) (members cls) of
           m # ms \<Rightarrow> Inr (fst m)
         | [] \<Rightarrow> enum_case_insensitive_search_by_value cls x)
    | _ \<Rightarrow> enum_case_insensitive_search_by_value cls x)"

datatype WSService = ACCT_ACTIVITY | ADMIN | CHART_EQUITY | OPTION | QUOTE | TIMESALE_EQUITY

definition WSService_class :: "WSService enum_class" where
  "WSService_class = \<lparr> members =
      [(ACCT_ACTIVITY, ''ACCT_ACTIVITY''), (ADMIN, ''ADMIN''), (CHART_EQUITY, ''CHART_EQUITY''),
       (OPTION, ''OPTION''), (QUOTE, ''QUOTE''), (TIMESALE_EQUITY, ''TIMESALE_EQUITY'')],
     UNSUPPORTED = None \<rparr>"

fun WSService_value :: "WSService \<Rightarrow> string" where
  "WSService_value ACCT_ACTIVITY = ''ACCT_ACTIVITY''"
| "WSService_value ADMIN = ''ADMIN''"
| "WSService_value CHART_EQUITY = ''CHART_EQUITY''"
| "WSService_value OPTION = ''OPTION''"
| "WSService_value QUOTE = ''QUOTE''"
| "WSService_value TIMESALE_EQUITY = ''TIMESALE_EQUITY''"

datatype WSCommand = LOGIN | LOGOUT | QOS | SUBS | UNSUBS

definition WSCommand_class :: "WSCommand enum_class" where
  "WSCommand_class = \<lparr> members =
      [(LOGIN, ''LOGIN''), (LOGOUT, ''LOGOUT''), (QOS, ''QOS''), (SUBS, ''SUBS''),
       (UNSUBS, ''UNSUBS'')],
     UNSUPPORTED = None \<rparr>"

fun WSCommand_value :: "WSCommand \<Rightarrow> string" where
  "WSCommand_value LOGIN = ''LOGIN''"
| "WSCommand_value LOGOUT = ''LOGOUT''"
| "WSCommand_value QOS = ''QOS''"
| "WSCommand_value SUBS = ''SUBS''"
| "WSCommand_value UNSUBS = ''UNSUBS''"

text \<open>\<^verbatim>\<open>tda.InstrumentType\<close>: a class of the package that does define \<^verbatim>\<open>UNSUPPORTED\<close>.\<close>

datatype InstrumentType =
    EQUITY | IT_OPTION | MUTUAL_FUND | CASH_EQUIVALENT | FIXED_INCOME | CURRENCY | INDEX
  | IT_UNSUPPORTED

definition InstrumentType_class :: "InstrumentType enum_class" where
  "InstrumentType_class = \<lparr> members =
      [(EQUITY, ''EQUITY''), (IT_OPTION, ''OPTION''), (MUTUAL_FUND, ''MUTUAL_FUND''),
       (CASH_EQUIVALENT, ''CASH_EQUIVALENT''), (FIXED_INCOME, ''FIXED_INCOME''),
       (CURRENCY, ''CURRENCY''), (INDEX, ''INDEX''), (IT_UNSUPPORTED, [])],
     UNSUPPORTED = Some IT_UNSUPPORTED \<rparr>"

text \<open>The numeric field maps of the streaming services (\<^verbatim>\<open>member.value\<close>).\<close>

datatype WSAccountActivityField =
  WAA_SUBSCRIPTION_KEY | WAA_ACCOUNT_ID | WAA_MESSAGE_TYPE | WAA_MESSAGE_DATA

fun WSAccountActivityField_value :: "WSAccountActivityField \<Rightarrow> nat" where
  "WSAccountActivityField_value WAA_SUBSCRIPTION_KEY = 0"
| "WSAccountActivityField_value WAA_ACCOUNT_ID = 1"
| "WSAccountActivityField_value WAA_MESSAGE_TYPE = 2"
| "WSAccountActivityField_value WAA_MESSAGE_DATA = 3"

datatype WSChartEquityField =
    WCE_SYMBOL | WCE_OPEN_PRICE | WCE_HIGH_PRICE | WCE_LOW_PRICE | WCE_CLOSE_PRICE
  | WCE_VOLUME | WCE_SEQUENCE | WCE_TIMESTAMP

fun WSChartEquityField_value :: "WSChartEquityField \<Rightarrow> nat" where
  "WSChartEquityField_value WCE_SYMBOL = 0"
| "WSChartEquityField_value WCE_OPEN_PRICE = 1"
| "WSChartEquityField_value WCE_HIGH_PRICE = 2"
| "WSChartEquityField_value WCE_LOW_PRICE = 3"
| "WSChartEquityField_value WCE_CLOSE_PRICE = 4"
| "WSChartEquityField_value WCE_VOLUME = 5"
| "WSChartEquityField_value WCE_SEQUENCE = 6"
| "WSChartEquityField_value WCE_TIMESTAMP = 7"

datatype WSOptionContractField =
    WOC_SYMBOL | WOC_DESCRIPTION | WOC_BID_PRICE | WOC_ASK_PRICE | WOC_LAST_PRICE
  | WOC_MARK_PRICE | WOC_VOLUME | WOC_OPEN_INTEREST | WOC_VOLATILITY | WOC_BID_SIZE
  | WOC_ASK_SIZE | WOC_LAST_SIZE | WOC_DELTA

fun WSOptionContractField_value :: "WSOptionContractField \<Rightarrow> nat" where
  "WSOptionContractField_value WOC_SYMBOL = 0"
| "WSOptionContractField_value WOC_DESCRIPTION = 1"
| "WSOptionContractField_value WOC_BID_PRICE = 2"
| "WSOptionContractField_value WOC_ASK_PRICE = 3"
| "WSOptionContractField_value WOC_LAST_PRICE = 4"
| "WSOptionContractField_value WOC_MARK_PRICE = 41"
| "WSOptionContractField_value WOC_VOLUME = 8"
| "WSOptionContractField_value WOC_OPEN_INTEREST = 9"
| "WSOptionContractField_value WOC_VOLATILITY = 10"
| "WSOptionContractField_value WOC_BID_SIZE = 20"
| "WSOptionContractField_value WOC_ASK_SIZE = 21"
| "WSOptionContractField_value WOC_LAST_SIZE = 22"
| "WSOptionContractField_value WOC_DELTA = 32"

datatype WSQuoteField =
    WQ_SYMBOL | WQ_BID_PRICE | WQ_ASK_PRICE | WQ_LAST_PRICE | WQ_MARK_PRICE | WQ_BID_SIZE
  | WQ_ASK_SIZE | WQ_LAST_SIZE | WQ_VOLATILITY | WQ_DESCRIPTION | WQ_QUOTE_TIMESTAMP
  | WQ_LAST_TIMESTAMP

fun WSQuoteField_value :: "WSQuoteField \<Rightarrow> nat" where
  "WSQuoteField_value WQ_SYMBOL = 0"
| "WSQuoteField_value WQ_BID_PRICE = 1"
| "WSQuoteField_value WQ_ASK_PRICE = 2"
| "WSQuoteField_value WQ_LAST_PRICE = 3"
| "WSQuoteField_value WQ_MARK_PRICE = 49"
| "WSQuoteField_value WQ_BID_SIZE = 4"
| "WSQuoteField_value WQ_ASK_SIZE = 5"
| "WSQuoteField_value WQ_LAST_SIZE = 9"
| "WSQuoteField_value WQ_VOLATILITY = 24"
| "WSQuoteField_value WQ_DESCRIPTION = 25"
| "WSQuoteField_value WQ_QUOTE_TIMESTAMP = 50"
| "WSQuoteField_value WQ_LAST_TIMESTAMP = 51"

datatype WSTimesaleEquityField =
  WTS_SYMBOL | WTS_TRADE_TIME | WTS_LAST_PRICE | WTS_LAST_SIZE | WTS_LAST_SEQUENCE

fun WSTimesaleEquityField_value :: "WSTimesaleEquityField \<Rightarrow> nat" where
  "WSTimesaleEquityField_value WTS_SYMBOL = 0"
| "WSTimesaleEquityField_value WTS_TRADE_TIME = 1"
| "WSTimesaleEquityField_value WTS_LAST_PRICE = 2"
| "WSTimesaleEquityField_value WTS_LAST_SIZE = 3"
| "WSTimesaleEquityField_value WTS_LAST_SEQUENCE = 4"

text \<open>
  The typed field enums of the package: each member's value is a pair of the REST key and
  the constructor (\<^verbatim>\<open>str\<close>, \<^verbatim>\<open>int\<close> or \<^verbatim>\<open>float\<close>) kept as \<^verbatim>\<open>member.typecast\<close>.
\<close>

datatype caster = CastStr | CastInt | CastFloat

datatype ChartBarField =
    CB_SYMBOL | CB_TIMESTAMP | CB_OPEN_PRICE | CB_HIGH_PRICE | CB_LOW_PRICE | CB_CLOSE_PRICE
  | CB_VOLUME | CB_UNSUPPORTED

fun ChartBarField_typecast :: "ChartBarField \<Rightarrow> caster" where
  "ChartBarField_typecast CB_SYMBOL = CastStr"
| "ChartBarField_typecast CB_TIMESTAMP = CastInt"
| "ChartBarField_typecast CB_OPEN_PRICE = CastFloat"
| "ChartBarField_typecast CB_HIGH_PRICE = CastFloat"
| "ChartBarField_typecast CB_LOW_PRICE = CastFloat"
| "ChartBarField_typecast CB_CLOSE_PRICE = CastFloat"
| "ChartBarField_typecast CB_VOLUME = CastInt"
| "ChartBarField_typecast CB_UNSUPPORTED = CastStr"

datatype OptionContractField =
    OC_SYMBOL | OC_DESCRIPTION | OC_OPEX | OC_SETTLEMENT_TYPE | OC_STRIKE | OC_CONTRACT_TYPE
  | OC_BID_PRICE | OC_ASK_PRICE | OC_LAST_PRICE | OC_MARK_PRICE | OC_VOLUME | OC_VOLATILITY
  | OC_OPEN_INTEREST | OC_BID_SIZE | OC_ASK_SIZE | OC_LAST_SIZE | OC_DELTA | OC_GAMMA
  | OC_THETA | OC_UNSUPPORTED

fun OptionContractField_typecast :: "OptionContractField \<Rightarrow> caster" where
  "OptionContractField_typecast OC_SYMBOL = CastStr"
| "OptionContractField_typecast OC_DESCRIPTION = CastStr"
| "OptionContractField_typecast OC_OPEX = CastInt"
| "OptionContractField_typecast OC_SETTLEMENT_TYPE = CastStr"
| "OptionContractField_typecast OC_STRIKE = CastFloat"
| "OptionContractField_typecast OC_CONTRACT_TYPE = CastStr"
| "OptionContractField_typecast OC_BID_PRICE = CastFloat"
| "OptionContractField_typecast OC_ASK_PRICE = CastFloat"
| "OptionContractField_typecast OC_LAST_PRICE = CastFloat"
| "OptionContractField_typecast OC_MARK_PRICE = CastFloat"
| "OptionContractField_typecast OC_VOLUME = CastInt"
| "OptionContractField_typecast OC_VOLATILITY = CastFloat"
| "OptionContractField_typecast OC_OPEN_INTEREST = CastInt"
| "OptionContractField_typecast OC_BID_SIZE = CastInt"
| "OptionContractField_typecast OC_ASK_SIZE = CastInt"
| "OptionContractField_typecast OC_LAST_SIZE = CastInt"
| "OptionContractField_typecast OC_DELTA = CastFloat"
| "OptionContractField_typecast OC_GAMMA = CastFloat"
| "OptionContractField_typecast OC_THETA = CastFloat"
| "OptionContractField_typecast OC_UNSUPPORTED = CastStr"

datatype QuoteField =
    Q_SYMBOL | Q_DESCRIPTION | Q_BID_PRICE | Q_ASK_PRICE | Q_LAST_PRICE | Q_MARK_PRICE
  | Q_BID_SIZE | Q_ASK_SIZE | Q_LAST_SIZE | Q_VOLATILITY | Q_QUOTE_TIMESTAMP
  | Q_LAST_TIMESTAMP | Q_UNSUPPORTED

fun QuoteField_typecast :: "QuoteField \<Rightarrow> caster" where
  "QuoteField_typecast Q_SYMBOL = CastStr"
| "QuoteField_typecast Q_DESCRIPTION = CastStr"
| "QuoteField_typecast Q_BID_PRICE = CastFloat"
| "QuoteField_typecast Q_ASK_PRICE = CastFloat"
| "QuoteField_typecast Q_LAST_PRICE = CastFloat"
| "QuoteField_typecast Q_MARK_PRICE = CastFloat"
| "QuoteField_typecast Q_BID_SIZE = CastInt"
| "QuoteField_typecast Q_ASK_SIZE = CastInt"
| "QuoteField_typecast Q_LAST_SIZE = CastInt"
| "QuoteField_typecast Q_VOLATILITY = CastFloat"
| "QuoteField_typecast Q_QUOTE_TIMESTAMP = CastInt"
| "QuoteField_typecast Q_LAST_TIMESTAMP = CastInt"
| "QuoteField_typecast Q_UNSUPPORTED = CastStr"

text \<open>
  The names of the order-status members that the account-activity branch reads. The class
  \<^verbatim>\<open>OrderStatus\<close> is declared in \<^verbatim>\<open>tda/api.py\<close>; the package \<^verbatim>\<open>tda\<close> itself
  (\<^verbatim>\<open>tda/__init__.py\<close>) neither declares nor imports it.
\<close>

datatype OrderStatus = QUEUED | FILLED | CANCELED | REJECTED

section \<open>Decoding a data payload: \<^verbatim>\<open>_ws_distill_data\<close>\<close>

text \<open>
  A distilled record is a Python dict keyed by enum members, kept as the list of its items
  in insertion order. A value is the result of a typecast or the raw decoded value.
\<close>

datatype record_field =
    ChartBar ChartBarField
  | OptionContract OptionContractField
  | Quote QuoteField
  | Timesale WSTimesaleEquityField

datatype pyval = PInt int | PFloat rat | PStr string | Raw json

type_synonym canonical_record = "(record_field \<times> pyval) list"

text \<open>\<^verbatim>\<open>field.typecast(raw)\<close>.\<close>

definition typecast :: "runtime \<Rightarrow> caster \<Rightarrow> json \<Rightarrow> pyerr + pyval" where
  "typecast R c raw = (case c of
      CastStr \<Rightarrow> Inr (PStr (str_of R raw))
    | CastInt \<Rightarrow> (case py_int R raw of Inl e \<Rightarrow> Inl e | Inr n \<Rightarrow> Inr (PInt n))
    | CastFloat \<Rightarrow> (case py_float R raw of Inl e \<Rightarrow> Inl e | Inr q \<Rightarrow> Inr (PFloat q)))"

text \<open>The three \<^verbatim>\<open>field_map\<close> dicts, as their items in the order written: the wire
  index of the streaming field, the package field it becomes, and that field's typecast.\<close>

definition chart_field_map :: "(nat \<times> record_field \<times> caster) list" where
  "chart_field_map = map (\<lambda>(ws_field, f).
       (WSChartEquityField_value ws_field, ChartBar f, ChartBarField_typecast f))
     [(WCE_TIMESTAMP, CB_TIMESTAMP), (WCE_OPEN_PRICE, CB_OPEN_PRICE),
      (WCE_HIGH_PRICE, CB_HIGH_PRICE), (WCE_LOW_PRICE, CB_LOW_PRICE),
      (WCE_CLOSE_PRICE, CB_CLOSE_PRICE), (WCE_VOLUME, CB_VOLUME)]"

definition option_field_map :: "(nat \<times> record_field \<times> caster) list" where
  "option_field_map = map (\<lambda>(ws_field, f).
       (WSOptionContractField_value ws_field, OptionContract f, OptionContractField_typecast f))
     [(WOC_BID_PRICE, OC_BID_PRICE), (WOC_ASK_PRICE, OC_ASK_PRICE),
      (WOC_LAST_PRICE, OC_LAST_PRICE), (WOC_MARK_PRICE, OC_MARK_PRICE),
      (WOC_VOLUME, OC_VOLUME), (WOC_VOLATILITY, OC_VOLATILITY),
      (WOC_OPEN_INTEREST, OC_OPEN_INTEREST), (WOC_BID_SIZE, OC_BID_SIZE),
      (WOC_ASK_SIZE, OC_ASK_SIZE), (WOC_LAST_SIZE, OC_LAST_SIZE), (WOC_DELTA, OC_DELTA)]"

definition quote_field_map :: "(nat \<times> record_field \<times> caster) list" where
  "quote_field_map = map (\<lambda>(ws_field, f).
       (WSQuoteField_value ws_field, Quote f, QuoteField_typecast f))
     [(WQ_BID_PRICE, Q_BID_PRICE), (WQ_ASK_PRICE, Q_ASK_PRICE), (WQ_LAST_PRICE, Q_LAST_PRICE),
      (WQ_MARK_PRICE, Q_MARK_PRICE), (WQ_BID_SIZE, Q_BID_SIZE), (WQ_ASK_SIZE, Q_ASK_SIZE),
      (WQ_LAST_SIZE, Q_LAST_SIZE), (WQ_VOLATILITY, Q_VOLATILITY),
      (WQ_QUOTE_TIMESTAMP, Q_QUOTE_TIMESTAMP), (WQ_LAST_TIMESTAMP, Q_LAST_TIMESTAMP)]"

text \<open>
  The dict comprehension
  \<^verbatim>\<open>{field: field.typecast(bar[str(ws_field.value)]) for ws_field, field in field_map.items()
       if str(ws_field.value) in bar}\<close>:
  the entries are visited in order, an entry whose index is not in the record is skipped,
  and the first exception ends the comprehension.
\<close>

fun typed_fields :: "runtime \<Rightarrow> (nat \<times> record_field \<times> caster) list \<Rightarrow> json \<Rightarrow> pyerr + canonical_record" where
  "typed_fields R [] bar = Inr []"
| "typed_fields R ((idx, f, c) # field_map) bar =
     (case py_in (str_nat idx) bar of
        Inl e \<Rightarrow> Inl e
      | Inr False \<Rightarrow> typed_fields R field_map bar
      | Inr True \<Rightarrow>
          (case subscript bar (str_nat idx) of
             Inl e \<Rightarrow> Inl e
           | Inr raw \<Rightarrow>
               (case typecast R c raw of
                  Inl e \<Rightarrow> Inl e
                | Inr v \<Rightarrow>
                    (case typed_fields R field_map bar of
                       Inl e \<Rightarrow> Inl e
                     | Inr rest \<Rightarrow> Inr ((f, v) # rest)))))"

text \<open>One iteration of the loops over \<^verbatim>\<open>content\<close> for the chart, option and quote
  services: the comprehension, then \<^verbatim>\<open>bar_prime[SYMBOL] = bar['key']\<close>.\<close>

definition typed_record :: "runtime \<Rightarrow> (nat \<times> record_field \<times> caster) list \<Rightarrow> record_field \<Rightarrow> json \<Rightarrow> pyerr + canonical_record" where
  "typed_record R field_map symbol bar =
     (case typed_fields R field_map bar of
        Inl e \<Rightarrow> Inl e
      | Inr bar_prime \<Rightarrow>
          (case subscript bar ''key'' of
             Inl e \<Rightarrow> Inl e
           | Inr k \<Rightarrow> Inr (bar_prime @ [(symbol, Raw k)])))"

text \<open>One iteration of the time-and-sales loop.\<close>

definition timesale_record :: "runtime \<Rightarrow> json \<Rightarrow> pyerr + canonical_record" where
  "timesale_record R ts =
     (case subscript ts ''key'' of Inl e \<Rightarrow> Inl e | Inr k \<Rightarrow>
      case subscript ts (str_nat (WSTimesaleEquityField_value WTS_TRADE_TIME)) of Inl e \<Rightarrow> Inl e | Inr t \<Rightarrow>
      case subscript ts (str_nat (WSTimesaleEquityField_value WTS_LAST_PRICE)) of Inl e \<Rightarrow> Inl e | Inr p \<Rightarrow>
      case subscript ts (str_nat (WSTimesaleEquityField_value WTS_LAST_SIZE)) of Inl e \<Rightarrow> Inl e | Inr sz \<Rightarrow>
      case py_int R sz of Inl e \<Rightarrow> Inl e | Inr n \<Rightarrow>
      case subscript ts (str_nat (WSTimesaleEquityField_value WTS_LAST_SEQUENCE)) of Inl e \<Rightarrow> Inl e | Inr sq \<Rightarrow>
        Inr [(Timesale WTS_SYMBOL, Raw k), (Timesale WTS_TRADE_TIME, Raw t),
             (Timesale WTS_LAST_PRICE, Raw p), (Timesale WTS_LAST_SIZE, PInt n),
             (Timesale WTS_LAST_SEQUENCE, Raw sq)])"

text \<open>\<^verbatim>\<open>for bar in content: ... data_prime.append(bar_prime)\<close>: the first exception ends
  the loop and the function.\<close>

fun distill_each :: "(json \<Rightarrow> pyerr + canonical_record) \<Rightarrow> json list \<Rightarrow> pyerr + canonical_record list" where
  "distill_each f [] = Inr []"
| "distill_each f (bar # bars) =
     (case f bar of
        Inl e \<Rightarrow> Inl e
      | Inr bar_prime \<Rightarrow>
          (case distill_each f bars of
             Inl e \<Rightarrow> Inl e
           | Inr data_prime \<Rightarrow> Inr (bar_prime # data_prime)))"

definition distill_list :: "(json \<Rightarrow> pyerr + canonical_record) \<Rightarrow> json \<Rightarrow> pyerr + canonical_record list option" where
  "distill_list f content =
     (case py_iter content of
        Inl e \<Rightarrow> Inl e
      | Inr bars \<Rightarrow> (case distill_each f bars of Inl e \<Rightarrow> Inl e | Inr data_prime \<Rightarrow> Inr (Some data_prime)))"

text \<open>The \<^verbatim>\<open>if\<close>/\<^verbatim>\<open>elif\<close> chain on the normalised message type: the order status whose
  value the matching branch reads, \<open>None\<close> for the final \<^verbatim>\<open>else\<close>.\<close>

definition message_status :: "string \<Rightarrow> OrderStatus option" where
  "message_status message_type =
     (if message_type = ''ORDERENTRYREQUEST'' then Some QUEUED
      else if message_type = ''ORDERFILL'' then Some FILLED
      else if message_type = ''UROUT'' then Some CANCELED
      else if message_type = ''ORDERREJECTION'' then Some REJECTED
      else None)"

text \<open>
  The account-activity branch. Only \<^verbatim>\<open>content[0]\<close> is read. For a recognised message type
  the branch evaluates \<^verbatim>\<open>tda.OrderStatus.<member>.value\<close>; the package \<^verbatim>\<open>tda\<close> has no
  attribute \<^verbatim>\<open>OrderStatus\<close>, so the attribute access raises \<^verbatim>\<open>AttributeError\<close> before
  anything is stored, and the statements after the chain (which read fields 1 and 3 and
  call \<^verbatim>\<open>ET.fromstring\<close>, a name the module never imports) are not reached.
\<close>

definition distill_acct_activity :: "runtime \<Rightarrow> json \<Rightarrow> pyerr + canonical_record list option" where
  "distill_acct_activity R content0 =
     (case subscript0 content0 of Inl e \<Rightarrow> Inl e | Inr content \<Rightarrow>
      case subscript content (str_nat (WSAccountActivityField_value WAA_MESSAGE_TYPE)) of
        Inl e \<Rightarrow> Inl e
      | Inr m \<Rightarrow>
          (case message_status (upper (strip (str_of R m))) of
             None \<Rightarrow> Inr None
           | Some status \<Rightarrow> Inl AttributeError))"

text \<open>
  \<^verbatim>\<open>_ws_distill_data(data)\<close>. The result is \<open>Inl\<close> an exception, \<open>Inr None\<close> for
  \<^verbatim>\<open>return None\<close>, or \<open>Inr (Some records)\<close> for the list \<^verbatim>\<open>data_prime\<close>.
\<close>

definition ws_distill_data :: "runtime \<Rightarrow> json \<Rightarrow> pyerr + canonical_record list option" where
  "ws_distill_data R data =
     (case subscript data ''service'' of Inl e \<Rightarrow> Inl e | Inr sv \<Rightarrow>
      case enum_call WSService_class sv of Inl e \<Rightarrow> Inl e | Inr service \<Rightarrow>
      case py_in ''content'' data of Inl e \<Rightarrow> Inl e | Inr present \<Rightarrow>
      if \<not> present then Inr None else
      case subscript data ''content'' of Inl e \<Rightarrow> Inl e | Inr content \<Rightarrow>
      case py_len content of Inl e \<Rightarrow> Inl e | Inr n \<Rightarrow>
      if n = 0 then Inr None else
      (case service of
         ACCT_ACTIVITY \<Rightarrow> distill_acct_activity R content
       | CHART_EQUITY \<Rightarrow> distill_list (typed_record R chart_field_map (ChartBar CB_SYMBOL)) content
       | OPTION \<Rightarrow> distill_list (typed_record R option_field_map (OptionContract OC_SYMBOL)) content
       | QUOTE \<Rightarrow> distill_list (typed_record R quote_field_map (Quote Q_SYMBOL)) content
       | TIMESALE_EQUITY \<Rightarrow> distill_list (timesale_record R) content
       | ADMIN \<Rightarrow> Inr None))"

section \<open>A runtime for evaluating the model on concrete frames\<close>

text \<open>
  \<open>plain_runtime\<close> follows Python on \<^verbatim>\<open>None\<close>, booleans, integers and plain decimal text
  (an optional sign, digits, and for \<^verbatim>\<open>float\<close> an optional fraction, surrounded by
  optional white space) whose value a double holds exactly. It does not round, and it
  does not read exponents, digit separators, \<^verbatim>\<open>inf\<close> or \<^verbatim>\<open>nan\<close>. It is used on inputs
  of the first kind only; the theorems about the module hold for every runtime.
\<close>

definition digit_val :: "char \<Rightarrow> nat option" where
  "digit_val c = (let n = (of_char c :: nat) in if 48 \<le> n \<and> n \<le> 57 then Some (n - 48) else None)"

fun digits_val :: "string \<Rightarrow> nat \<Rightarrow> nat option" where
  "digits_val [] acc = Some acc"
| "digits_val (c # cs) acc =
     (case digit_val c of None \<Rightarrow> None | Some d \<Rightarrow> digits_val cs (10 * acc + d))"

definition unsigned_val :: "string \<Rightarrow> nat option" where
  "unsigned_val s = (if s = [] then None else digits_val s 0)"

definition signed :: "(string \<Rightarrow> 'a option) \<Rightarrow> ('a \<Rightarrow> 'a) \<Rightarrow> string \<Rightarrow> 'a option" where
  "signed parse neg s = (case strip s of
      [] \<Rightarrow> None
    | c # cs \<Rightarrow>
        if c = CHR ''-'' then map_option neg (parse cs)
        else if c = CHR ''+'' then parse cs
        else parse (c # cs))"

definition int_of_text :: "string \<Rightarrow> int option" where
  "int_of_text s = signed (\<lambda>t. map_option int (unsigned_val t)) uminus s"

definition unsigned_decimal :: "string \<Rightarrow> rat option" where
  "unsigned_decimal s =
     (let whole = takeWhile (\<lambda>c. c \<noteq> CHR ''.'') s;
          rest = dropWhile (\<lambda>c. c \<noteq> CHR ''.'') s
      in case rest of
           [] \<Rightarrow> map_option of_nat (unsigned_val whole)
         | dot # fdigits \<Rightarrow>
             if whole = [] \<and> fdigits = [] then None
             else (case (digits_val whole 0, digits_val fdigits 0) of
                     (Some w, Some f) \<Rightarrow> Some (of_nat w + of_nat f / of_nat (10 ^ length fdigits))
                   | _ \<Rightarrow> None))"

definition float_of_text :: "string \<Rightarrow> rat option" where
  "float_of_text s = signed unsigned_decimal uminus s"

definition plain_int :: "json \<Rightarrow> pyerr + int" where
  "plain_int v = (case v of
      JInt n \<Rightarrow> Inr n
    | JBool b \<Rightarrow> Inr (if b then 1 else 0)
    | JFloat q \<Rightarrow> Inr (if 0 \<le> q then \<lfloor>q\<rfloor> else \<lceil>q\<rceil>)
    | JStr s \<Rightarrow> (case int_of_text s of None \<Rightarrow> Inl ValueError | Some n \<Rightarrow> Inr n)
    | _ \<Rightarrow> Inl TypeError)"

definition plain_float :: "json \<Rightarrow> pyerr + rat" where
  "plain_float v = (case v of
      JInt n \<Rightarrow> Inr (of_int n)
    | JBool b \<Rightarrow> Inr (if b then 1 else 0)
    | JFloat q \<Rightarrow> Inr q
    | JStr s \<Rightarrow> (case float_of_text s of None \<Rightarrow> Inl ValueError | Some q \<Rightarrow> Inr q)
    | _ \<Rightarrow> Inl TypeError)"

definition plain_str :: "json \<Rightarrow> string" where
  "plain_str v = (case v of
      JNull \<Rightarrow> ''None''
    | JBool b \<Rightarrow> (if b then ''True'' else ''False'')
    | JInt n \<Rightarrow> (if n < 0 then CHR ''-'' # str_nat (nat (- n)) else str_nat (nat n))
    | JStr s \<Rightarrow> s
    | _ \<Rightarrow> ''...'')"

definition plain_runtime :: runtime where
  "plain_runtime = \<lparr> py_int = plain_int, py_float = plain_float, py_str = plain_str \<rparr>"

section \<open>The session and its environment\<close>

text \<open>
  A consumer callback is an arbitrary Python callable. The model keeps what the module can
  observe of one call: it returns, it raises, or it returns after setting
  \<^verbatim>\<open>flags['done']\<close>. The outcome may depend on the arguments.
\<close>

datatype outcome = Returns | Raises | SetsDone

record callback =
  cb_name :: string
  cb_run :: "canonical_record list \<Rightarrow> json \<Rightarrow> outcome"

text \<open>The members that the \<^verbatim>\<open>fields\<close> argument of a subscription lists.\<close>

datatype ws_field =
    AccountActivityField WSAccountActivityField
  | ChartEquityField WSChartEquityField
  | OptionField WSOptionContractField
  | QuoteWSField WSQuoteField
  | TimesaleEquityField WSTimesaleEquityField

fun ws_field_value :: "ws_field \<Rightarrow> nat" where
  "ws_field_value (AccountActivityField f) = WSAccountActivityField_value f"
| "ws_field_value (ChartEquityField f) = WSChartEquityField_value f"
| "ws_field_value (OptionField f) = WSOptionContractField_value f"
| "ws_field_value (QuoteWSField f) = WSQuoteField_value f"
| "ws_field_value (TimesaleEquityField f) = WSTimesaleEquityField_value f"

text \<open>The dict stored at \<^verbatim>\<open>ws[service.value]\<close>; \<open>d_fields\<close> is its key \<^verbatim>\<open>fields\<close>.\<close>

record descriptor =
  d_fields :: "ws_field list"
  symbols :: "string list option"
  process_first_data :: bool
  cb_functions :: "callback list"
  cb_data :: "json list option"

text \<open>
  What \<^verbatim>\<open>tda.api._get_user_principals\<close> returns, as far as the module reads it: the
  listed account ids, the application id, the streamer token, the first streamer
  subscription key, and the url-encoded credential string that \<^verbatim>\<open>ws_connect\<close> derives
  for the chosen account with \<^verbatim>\<open>dateutil\<close> and \<^verbatim>\<open>urllib\<close> (kept as given).
\<close>

record principal =
  accounts :: "string list"
  appId :: string
  token :: string
  subscription_key :: string
  credential :: string

text \<open>
  One later call of \<^verbatim>\<open>ws_connect\<close>, as the outside world answers it:
  \<open>user_principals\<close> is what the REST call returns (\<open>None\<close> on failure), and
  \<open>socket\<close> is the frames that the new connection will deliver, oldest first, or
  \<open>None\<close> when \<^verbatim>\<open>websockets.connect\<close> raises.
\<close>

record attempt =
  user_principals :: "principal option"
  socket :: "json list option"

datatype log_entry =
    NoUserPrincipals
  | AccountMismatch string
  | FailedLogin json
  | FailedSubs json
  | BadResponse json
  | ResponseMsg json

text \<open>
  The state that the module reads and writes. The first six fields are the dict \<^verbatim>\<open>ws\<close>:
  its five fixed keys and the entries keyed by service value. \<open>websocket\<close> is the frames
  that \<^verbatim>\<open>recv\<close> has yet to deliver, already decoded; once they are used up, \<^verbatim>\<open>recv\<close>
  raises \<^verbatim>\<open>ConnectionClosedError\<close>. The others are the environment: the requests
  written to the server, the \<^verbatim>\<open>logger.error\<close> calls of the session functions, the
  callback invocations with their arguments, \<^verbatim>\<open>flags['done']\<close>, and the answers to
  later connection attempts.
\<close>

record world =
  account :: string
  user_principal :: principal
  websocket :: "json list"
  qos :: nat
  next_request_id :: nat
  registry :: "WSService \<Rightarrow> descriptor option"
  sent :: "json list"
  errors :: "log_entry list"
  calls :: "(string \<times> canonical_record list \<times> json) list"
  done_flag :: bool
  future :: "attempt list"

text \<open>The dict that \<^verbatim>\<open>ws_connect\<close> returns.\<close>

record connection =
  c_account :: string
  c_principal :: principal
  c_websocket :: "json list"
  c_qos :: nat
  c_next_request_id :: nat

text \<open>\<^verbatim>\<open>ws.update(ws_prime)\<close>: the five fixed keys are replaced, the service entries
  stay.\<close>

definition ws_update :: "connection \<Rightarrow> world \<Rightarrow> world" where
  "ws_update c w = w\<lparr> account := c_account c, user_principal := c_principal c,
     websocket := c_websocket c, qos := c_qos c, next_request_id := c_next_request_id c \<rparr>"

text \<open>\<^verbatim>\<open>','.join(xs)\<close>.\<close>

fun join :: "string list \<Rightarrow> string" where
  "join [] = []"
| "join [x] = x"
| "join (x # y # ys) = x @ CHR '','' # join (y # ys)"

text \<open>
  \<^verbatim>\<open>response = {}; while key not in response: response = json.loads(await recv())\<close>:
  the first frame that contains the key, with the frames left behind it.
\<close>

fun recv_until :: "string \<Rightarrow> json list \<Rightarrow> (pyerr + json) \<times> json list" where
  "recv_until k [] = (Inl ConnectionClosedError, [])"
| "recv_until k (frame # frames) =
     (case py_in k frame of
        Inl e \<Rightarrow> (Inl e, frames)
      | Inr True \<Rightarrow> (Inr frame, frames)
      | Inr False \<Rightarrow> recv_until k frames)"

text \<open>\<^verbatim>\<open>response['response'][0]['content']['code'] != 0\<close>.\<close>

definition response_rejected :: "json \<Rightarrow> pyerr + bool" where
  "response_rejected response =
     (case subscript response ''response'' of Inl e \<Rightarrow> Inl e | Inr rs \<Rightarrow>
      case subscript0 rs of Inl e \<Rightarrow> Inl e | Inr r \<Rightarrow>
      case subscript r ''content'' of Inl e \<Rightarrow> Inl e | Inr content \<Rightarrow>
      case subscript content ''code'' of Inl e \<Rightarrow> Inl e | Inr code \<Rightarrow> Inr (ne_zero code))"

section \<open>\<^verbatim>\<open>ws_connect\<close>\<close>

definition request :: "string \<Rightarrow> string \<Rightarrow> nat \<Rightarrow> string \<Rightarrow> string \<Rightarrow> (string \<times> json) list \<Rightarrow> json" where
  "request service command requestid acct source parameters =
     JObj [(''requests'', JList [JObj
       [(''service'', JStr service), (''command'', JStr command),
        (''requestid'', JInt (int requestid)), (''account'', JStr acct),
        (''source'', JStr source), (''parameters'', JObj parameters)]])]"

definition login_request :: "string \<Rightarrow> principal \<Rightarrow> nat \<Rightarrow> json" where
  "login_request account_id p qos_value =
     request (WSService_value ADMIN) (WSCommand_value LOGIN) 0 account_id (appId p)
       [(''credential'', JStr (credential p)), (''token'', JStr (token p)),
        (''version'', JStr ''1.0''), (''qoslevel'', JInt (int qos_value))]"

text \<open>
  \<^verbatim>\<open>ws_connect(account_id, qos)\<close> against one answer of the outside world. The result is
  \<open>Inr None\<close> for \<^verbatim>\<open>return None\<close> and \<open>Inr (Some c)\<close> for the returned dict. After the
  login response has been read, a non-zero code is logged and the function goes on to
  \<^verbatim>\<open>return ws\<close>.
\<close>

definition connect_with :: "string \<Rightarrow> nat \<Rightarrow> attempt \<Rightarrow> world \<Rightarrow> (pyerr + connection option) \<times> world" where
  "connect_with account_id qos_value a w =
     (case user_principals a of
        None \<Rightarrow> (Inr None, w\<lparr>errors := errors w @ [NoUserPrincipals]\<rparr>)
      | Some p \<Rightarrow>
          if account_id \<notin> set (accounts p)
          then (Inr None, w\<lparr>errors := errors w @ [AccountMismatch account_id]\<rparr>)
          else (case socket a of
                  None \<Rightarrow> (Inl ConnectError, w)
                | Some frames \<Rightarrow>
                    (let w1 = w\<lparr>sent := sent w @ [login_request account_id p qos_value]\<rparr>
                     in case recv_until ''response'' frames of
                          (Inl e, ws) \<Rightarrow> (Inl e, w1)
                        | (Inr response, ws) \<Rightarrow>
                            (case response_rejected response of
                               Inl e \<Rightarrow> (Inl e, w1)
                             | Inr rejected \<Rightarrow>
                                 (Inr (Some \<lparr> c_account = account_id, c_principal = p,
                                         c_websocket = ws, c_qos = qos_value,
                                         c_next_request_id = 1 \<rparr>),
                                  if rejected then w1\<lparr>errors := errors w1 @ [FailedLogin response]\<rparr>
                                  else w1)))))"

text \<open>\<^verbatim>\<open>ws_connect\<close> takes the next answer; when none is left the network is gone and
  the REST call raises.\<close>

definition ws_connect :: "string \<Rightarrow> nat \<Rightarrow> world \<Rightarrow> (pyerr + connection option) \<times> world" where
  "ws_connect account_id qos_value w =
     (case future w of
        [] \<Rightarrow> (Inl ConnectError, w)
      | a # rest \<Rightarrow> connect_with account_id qos_value a (w\<lparr>future := rest\<rparr>))"

section \<open>\<^verbatim>\<open>_ws_subscribe\<close> and \<^verbatim>\<open>_ws_resubscribe\<close>\<close>

text \<open>
  \<^verbatim>\<open>for cb_idx, cb_function in enumerate(cb_functions):
       cb_function(distilled_data, cb_data[cb_idx])\<close>.
  The context \<^verbatim>\<open>cb_data[cb_idx]\<close> is evaluated before the call: with
  \<^verbatim>\<open>cb_data = None\<close> it raises \<^verbatim>\<open>TypeError\<close>, beyond the end of the list
  \<^verbatim>\<open>IndexError\<close>. There is no \<^verbatim>\<open>try\<close> around the call, so an exception of a callback
  ends the loop.
\<close>

fun invoke :: "canonical_record list \<Rightarrow> json list option \<Rightarrow> nat \<Rightarrow> callback list \<Rightarrow> world \<Rightarrow> (pyerr + unit) \<times> world" where
  "invoke distilled_data ctxs cb_idx [] w = (Inr (), w)"
| "invoke distilled_data ctxs cb_idx (cb_function # rest) w =
     (case ctxs of
        None \<Rightarrow> (Inl TypeError, w)
      | Some cs \<Rightarrow>
          if length cs \<le> cb_idx then (Inl IndexError, w)
          else (let w1 = w\<lparr>calls := calls w @ [(cb_name cb_function, distilled_data, cs ! cb_idx)]\<rparr>
                in case cb_run cb_function distilled_data (cs ! cb_idx) of
                     Raises \<Rightarrow> (Inl CallbackError, w1)
                   | SetsDone \<Rightarrow> invoke distilled_data ctxs (Suc cb_idx) rest (w1\<lparr>done_flag := True\<rparr>)
                   | Returns \<Rightarrow> invoke distilled_data ctxs (Suc cb_idx) rest w1))"

text \<open>The callbacks and contexts of \<^verbatim>\<open>ws[service.value]\<close>; a service without an entry
  is a missing key of \<^verbatim>\<open>ws\<close>.\<close>

definition dispatch :: "WSService \<Rightarrow> canonical_record list \<Rightarrow> world \<Rightarrow> (pyerr + unit) \<times> world" where
  "dispatch service distilled_data w =
     (case registry w service of
        None \<Rightarrow> (Inl KeyError, w)
      | Some d \<Rightarrow> invoke distilled_data (cb_data d) 0 (cb_functions d) w)"

definition subscribe_request :: "WSService \<Rightarrow> ws_field list \<Rightarrow> string list option \<Rightarrow> world \<Rightarrow> json" where
  "subscribe_request service flds syms w =
     request (WSService_value service) (WSCommand_value SUBS) 1 (account w)
       (appId (user_principal w))
       [(''keys'', JStr (case syms of None \<Rightarrow> subscription_key (user_principal w)
                                   | Some ss \<Rightarrow> join ss)),
        (''fields'', JStr (join (map (\<lambda>f. str_nat (ws_field_value f)) flds)))]"

text \<open>
  \<^verbatim>\<open>data_service = WSService(data['service']) if data is not None and 'service' in data
  else None\<close>.
\<close>

definition data_service_of :: "json \<Rightarrow> pyerr + WSService option" where
  "data_service_of data =
     (if data = JNull then Inr None
      else case py_in ''service'' data of
             Inl e \<Rightarrow> Inl e
           | Inr False \<Rightarrow> Inr None
           | Inr True \<Rightarrow>
               (case subscript data ''service'' of Inl e \<Rightarrow> Inl e | Inr sv \<Rightarrow>
                case enum_call WSService_class sv of Inl e \<Rightarrow> Inl e | Inr s \<Rightarrow> Inr (Some s)))"

text \<open>
  \<^verbatim>\<open>_ws_subscribe(ws, service, fields, cb_functions, cb_data, symbols,
  process_first_data)\<close>. The request is sent; frames are read up to the first response,
  whose non-zero code is only logged, and on to the first data frame, whose first element
  is distilled; the entry of \<open>service\<close> is then assigned; with \<open>process_first_data\<close>
  the distilled data go to the callbacks stored under the service that the data frame
  names.
\<close>

definition ws_subscribe ::
  "runtime \<Rightarrow> WSService \<Rightarrow> ws_field list \<Rightarrow> callback list \<Rightarrow> json list option \<Rightarrow> string list option \<Rightarrow> bool
     \<Rightarrow> world \<Rightarrow> (pyerr + unit) \<times> world" where
  "ws_subscribe R service flds cbs ctxs syms first_data w =
     (let w1 = w\<lparr>sent := sent w @ [subscribe_request service flds syms w]\<rparr> in
      case recv_until ''response'' (websocket w1) of
        (Inl e, ws) \<Rightarrow> (Inl e, w1\<lparr>websocket := ws\<rparr>)
      | (Inr response, ws) \<Rightarrow>
     (let w2 = w1\<lparr>websocket := ws\<rparr> in
      case response_rejected response of
        Inl e \<Rightarrow> (Inl e, w2)
      | Inr rejected \<Rightarrow>
     (let w3 = (if rejected then w2\<lparr>errors := errors w2 @ [FailedSubs response]\<rparr> else w2) in
      case recv_until ''data'' (websocket w3) of
        (Inl e, ws') \<Rightarrow> (Inl e, w3\<lparr>websocket := ws'\<rparr>)
      | (Inr frame, ws') \<Rightarrow>
     (let w4 = w3\<lparr>websocket := ws'\<rparr> in
      case subscript frame ''data'' of Inl e \<Rightarrow> (Inl e, w4) | Inr ds \<Rightarrow>
      case subscript0 ds of Inl e \<Rightarrow> (Inl e, w4) | Inr data \<Rightarrow>
      case data_service_of data of Inl e \<Rightarrow> (Inl e, w4) | Inr data_service \<Rightarrow>
      case ws_distill_data R data of Inl e \<Rightarrow> (Inl e, w4) | Inr distilled_data \<Rightarrow>
     (let w5 = w4\<lparr>registry := (registry w4)(service \<mapsto>
                  \<lparr> d_fields = flds, symbols = syms, process_first_data = first_data,
                    cb_functions = cbs, cb_data = ctxs \<rparr>)\<rparr> in
      case (first_data, distilled_data) of
        (True, Some recs) \<Rightarrow>
          (case data_service of
             None \<Rightarrow> (Inl AttributeError, w5)
           | Some s \<Rightarrow> dispatch s recs w5)
      | _ \<Rightarrow> (Inr (), w5))))))"

text \<open>\<^verbatim>\<open>_ws_resubscribe(ws)\<close>: the loop over the tuple of services written in the
  source.\<close>

definition resubscribed_services :: "WSService list" where
  "resubscribed_services = [ACCT_ACTIVITY, CHART_EQUITY, OPTION, QUOTE]"

fun resubscribe_each :: "runtime \<Rightarrow> WSService list \<Rightarrow> world \<Rightarrow> (pyerr + unit) \<times> world" where
  "resubscribe_each R [] w = (Inr (), w)"
| "resubscribe_each R (service # services) w =
     (case registry w service of
        None \<Rightarrow> resubscribe_each R services w
      | Some params \<Rightarrow>
          (case ws_subscribe R service (d_fields params) (cb_functions params) (cb_data params)
                  (symbols params) (process_first_data params) w of
             (Inl e, w') \<Rightarrow> (Inl e, w')
           | (Inr u, w') \<Rightarrow> resubscribe_each R services w'))"

definition ws_resubscribe :: "runtime \<Rightarrow> world \<Rightarrow> (pyerr + unit) \<times> world" where
  "ws_resubscribe R w = resubscribe_each R resubscribed_services w"

section \<open>\<^verbatim>\<open>ws_listen\<close>\<close>

text \<open>
  The body of \<^verbatim>\<open>for data in response['data']\<close>: an element without a service, of a
  service without an entry in \<^verbatim>\<open>ws\<close>, or distilled to \<^verbatim>\<open>None\<close> is skipped; otherwise
  the callbacks of the service are called in order. Nothing in the loop catches an
  exception.
\<close>

definition listen_data :: "runtime \<Rightarrow> json \<Rightarrow> world \<Rightarrow> (pyerr + unit) \<times> world" where
  "listen_data R data w =
     (case py_in ''service'' data of
        Inl e \<Rightarrow> (Inl e, w)
      | Inr False \<Rightarrow> (Inr (), w)
      | Inr True \<Rightarrow>
     (case subscript data ''service'' of Inl e \<Rightarrow> (Inl e, w) | Inr sv \<Rightarrow>
      case enum_call WSService_class sv of Inl e \<Rightarrow> (Inl e, w) | Inr service \<Rightarrow>
      case registry w service of None \<Rightarrow> (Inr (), w) | Some d \<Rightarrow>
      case ws_distill_data R data of
        Inl e \<Rightarrow> (Inl e, w)
      | Inr None \<Rightarrow> (Inr (), w)
      | Inr (Some distilled_data) \<Rightarrow> invoke distilled_data (cb_data d) 0 (cb_functions d) w))"

fun listen_each :: "runtime \<Rightarrow> json list \<Rightarrow> world \<Rightarrow> (pyerr + unit) \<times> world" where
  "listen_each R [] w = (Inr (), w)"
| "listen_each R (data # rest) w =
     (case listen_data R data w of
        (Inl e, w') \<Rightarrow> (Inl e, w')
      | (Inr u, w') \<Rightarrow> listen_each R rest w')"

text \<open>The branch for a confirmation message: a non-zero code is logged, with the
  message text when there is one.\<close>

definition listen_response :: "json \<Rightarrow> world \<Rightarrow> (pyerr + unit) \<times> world" where
  "listen_response response w =
     (case subscript response ''response'' of Inl e \<Rightarrow> (Inl e, w) | Inr rs \<Rightarrow>
      case py_len rs of Inl e \<Rightarrow> (Inl e, w) | Inr n \<Rightarrow>
      if n \<noteq> 1 then (Inr (), w) else
      case subscript0 rs of Inl e \<Rightarrow> (Inl e, w) | Inr r \<Rightarrow>
      case py_in ''content'' r of Inl e \<Rightarrow> (Inl e, w) | Inr False \<Rightarrow> (Inr (), w) | Inr True \<Rightarrow>
      case subscript r ''content'' of Inl e \<Rightarrow> (Inl e, w) | Inr content \<Rightarrow>
      case subscript content ''code'' of Inl e \<Rightarrow> (Inl e, w) | Inr code \<Rightarrow>
      if \<not> ne_zero code then (Inr (), w) else
      case py_in ''msg'' content of Inl e \<Rightarrow> (Inl e, w)
      | Inr False \<Rightarrow> (Inr (), w\<lparr>errors := errors w @ [BadResponse response]\<rparr>)
      | Inr True \<Rightarrow>
          (case subscript content ''msg'' of
             Inl e \<Rightarrow> (Inl e, w)
           | Inr msg \<Rightarrow> (Inr (), w\<lparr>errors := errors w @ [ResponseMsg msg]\<rparr>)))"

text \<open>One received message: heartbeat, confirmation, data, or unknown.\<close>

definition listen_frame :: "runtime \<Rightarrow> json \<Rightarrow> world \<Rightarrow> (pyerr + unit) \<times> world" where
  "listen_frame R response w =
     (case py_in ''notify'' response of Inl e \<Rightarrow> (Inl e, w) | Inr True \<Rightarrow> (Inr (), w) | Inr False \<Rightarrow>
      case py_in ''response'' response of Inl e \<Rightarrow> (Inl e, w) | Inr True \<Rightarrow> listen_response response w | Inr False \<Rightarrow>
      case py_in ''data'' response of Inl e \<Rightarrow> (Inl e, w) | Inr False \<Rightarrow> (Inr (), w) | Inr True \<Rightarrow>
      case subscript response ''data'' of Inl e \<Rightarrow> (Inl e, w) | Inr ds \<Rightarrow>
      case py_iter ds of Inl e \<Rightarrow> (Inl e, w) | Inr datas \<Rightarrow> listen_each R datas w)"

text \<open>
  \<^verbatim>\<open>while not(ws_prime or done): ws_prime = ws_connect(account id, qos)\<close>. Each round is
  \<^verbatim>\<open>ws_connect\<close> on the next answer of the outside world; \<^verbatim>\<open>None\<close> is tried again, an
  exception leaves the loop. The loop is entered with \<^verbatim>\<open>done\<close> false and runs no
  callback, so the flag stays false.
\<close>

fun connect_loop :: "string \<Rightarrow> nat \<Rightarrow> attempt list \<Rightarrow> world \<Rightarrow> (pyerr + connection) \<times> world" where
  "connect_loop account_id qos_value [] w = (Inl ConnectError, w)"
| "connect_loop account_id qos_value (a # rest) w =
     (case connect_with account_id qos_value a (w\<lparr>future := rest\<rparr>) of
        (Inl e, w') \<Rightarrow> (Inl e, w')
      | (Inr None, w') \<Rightarrow> connect_loop account_id qos_value rest w'
      | (Inr (Some ws_prime), w') \<Rightarrow> (Inr ws_prime, w'))"

text \<open>The branch for a closed connection: connect again, update \<^verbatim>\<open>ws\<close>, resubscribe.\<close>

definition reconnect :: "runtime \<Rightarrow> world \<Rightarrow> (pyerr + unit) \<times> world" where
  "reconnect R w =
     (case connect_loop (account w) (qos w) (future w) w of
        (Inl e, w') \<Rightarrow> (Inl e, w')
      | (Inr ws_prime, w') \<Rightarrow> ws_resubscribe R (ws_update ws_prime w'))"

text \<open>
  The \<^verbatim>\<open>while\<close> loop of \<^verbatim>\<open>ws_listen\<close>, with a bound on the number of rounds;
  \<open>None\<close> means that the bound was reached. \<^verbatim>\<open>response is None\<close> holds when
  \<^verbatim>\<open>recv\<close> raised \<^verbatim>\<open>ConnectionClosedError\<close> and also when the frame is the JSON value
  \<^verbatim>\<open>null\<close>: both take the branch that connects again.
\<close>

fun listen_loop :: "nat \<Rightarrow> runtime \<Rightarrow> world \<Rightarrow> ((pyerr + unit) \<times> world) option" where
  "listen_loop 0 R w = None"
| "listen_loop (Suc n) R w =
     (if done_flag w then Some (Inr (), w)
      else case websocket w of
             [] \<Rightarrow>
               (case reconnect R w of
                  (Inl e, w') \<Rightarrow> Some (Inl e, w')
                | (Inr u, w') \<Rightarrow> listen_loop n R w')
           | response # frames \<Rightarrow>
               if response = JNull
               then (case reconnect R (w\<lparr>websocket := frames\<rparr>) of
                       (Inl e, w') \<Rightarrow> Some (Inl e, w')
                     | (Inr u, w') \<Rightarrow> listen_loop n R w')
               else (case listen_frame R response (w\<lparr>websocket := frames\<rparr>) of
                       (Inl e, w') \<Rightarrow> Some (Inl e, w')
                     | (Inr u, w') \<Rightarrow> listen_loop n R w'))"

text \<open>
  Every round takes a frame from the connection or an answer from the outside world, so
  the loop makes at most \<open>pending w\<close> rounds that go on to a next one.
\<close>

definition pending :: "world \<Rightarrow> nat" where
  "pending w = length (websocket w) +
     sum_list (map (\<lambda>a. Suc (case socket a of None \<Rightarrow> 0 | Some frames \<Rightarrow> length frames)) (future w))"

definition ws_listen :: "runtime \<Rightarrow> world \<Rightarrow> ((pyerr + unit) \<times> world) option" where
  "ws_listen R w = listen_loop (Suc (pending w)) R w"

section \<open>Notions used to state the properties\<close>



section \<open>Concrete sessions for evaluating the model\<close>

definition sample_principal :: principal where
  "sample_principal = \<lparr> accounts = [''123456789''], appId = ''APP'', token = ''TOKEN'',
     subscription_key = ''KEY'', credential = ''userid=123456789'' \<rparr>"

text \<open>A session right after \<^verbatim>\<open>ws_connect\<close>: nothing subscribed, nothing to read.\<close>

definition idle_session :: world where
  "idle_session = \<lparr> account = ''123456789'', user_principal = sample_principal,
     websocket = [], qos = 2, next_request_id = 1, registry = (\<lambda>service. None),
     sent = [], errors = [], calls = [], done_flag = False, future = [] \<rparr>"

text \<open>A confirmation message with the given code, and a data message with one element.\<close>

definition response_frame :: "int \<Rightarrow> json" where
  "response_frame code = JObj [(''response'', JList [JObj [(''content'', JObj [(''code'', JInt code)])]])]"

definition data_message :: "json \<Rightarrow> json" where
  "data_message data = JObj [(''data'', JList [data])]"

definition quote_data :: json where
  "quote_data = JObj [(''service'', JStr ''QUOTE''),
     (''content'', JList [JObj [(''key'', JStr ''ABC''), (''1'', JStr ''10.5'')]])]"

definition chart_data :: json where
  "chart_data = JObj [(''service'', JStr ''CHART_EQUITY''),
     (''content'', JList [JObj [(''key'', JStr ''XYZ''), (''5'', JInt 100)]])]"

text \<open>Callbacks that return, and one that raises.\<close>

definition returning :: "string \<Rightarrow> callback" where
  "returning name = \<lparr> cb_name = name, cb_run = (\<lambda>distilled_data ctx. Returns) \<rparr>"

definition raising :: "string \<Rightarrow> callback" where
  "raising name = \<lparr> cb_name = name, cb_run = (\<lambda>distilled_data ctx. Raises) \<rparr>"

definition quote_descriptor :: "callback list \<Rightarrow> json list option \<Rightarrow> descriptor" where
  "quote_descriptor cbs ctxs = \<lparr> d_fields = [QuoteWSField WQ_SYMBOL, QuoteWSField WQ_BID_PRICE],
     symbols = Some [''ABC''], process_first_data = True, cb_functions = cbs, cb_data = ctxs \<rparr>"

definition chart_descriptor :: descriptor where
  "chart_descriptor = \<lparr> d_fields = [ChartEquityField WCE_SYMBOL, ChartEquityField WCE_VOLUME],
     symbols = Some [''XYZ''], process_first_data = True,
     cb_functions = [returning ''on_chart''], cb_data = Some [JStr ''chart context''] \<rparr>"

definition timesale_descriptor :: descriptor where
  "timesale_descriptor = \<lparr> d_fields = [TimesaleEquityField WTS_SYMBOL, TimesaleEquityField WTS_LAST_PRICE],
     symbols = Some [''ABC''], process_first_data = True,
     cb_functions = [returning ''on_trade''], cb_data = Some [JStr ''trade context''] \<rparr>"

definition subscribed :: "WSService \<Rightarrow> descriptor \<Rightarrow> world \<Rightarrow> world" where
  "subscribed service d w = w\<lparr>registry := (registry w)(service \<mapsto> d)\<rparr>"

text \<open>The outside world accepts one connection, which delivers the given frames.\<close>

definition accepting :: "json list \<Rightarrow> attempt" where
  "accepting frames = \<lparr> user_principals = Some sample_principal, socket = Some frames \<rparr>"

section \<open>Evaluation rules\<close>

lemmas text_defs = strip_def is_space_def upper_def upper_char_def lower_def lower_char_def
  str_nat.simps digit_char_def

lemmas plain_defs = plain_runtime_def plain_int_def plain_float_def plain_str_def
  int_of_text_def float_of_text_def signed_def unsigned_val_def unsigned_decimal_def digit_val_def

lemmas json_defs = subscript_def subscript0_def py_in_def py_len_def py_iter_def

lemmas sample_defs = idle_session_def sample_principal_def accepting_def subscribed_def
  response_frame_def data_message_def quote_data_def chart_data_def returning_def raising_def
  quote_descriptor_def chart_descriptor_def timesale_descriptor_def

lemma chart_field_map_items:
  "chart_field_map =
     [(7, ChartBar CB_TIMESTAMP, CastInt), (1, ChartBar CB_OPEN_PRICE, CastFloat),
      (2, ChartBar CB_HIGH_PRICE, CastFloat), (3, ChartBar CB_LOW_PRICE, CastFloat),
      (4, ChartBar CB_CLOSE_PRICE, CastFloat), (5, ChartBar CB_VOLUME, CastInt)]"
  by (simp add: chart_field_map_def)

lemma quote_data_distilled:
  "ws_distill_data plain_runtime quote_data =
     Inr (Some [[(Quote Q_BID_PRICE, PFloat (21 / 2)), (Quote Q_SYMBOL, Raw (JStr ''ABC''))]])"
  by code_simp

section \<open>The receive loop returns\<close>

text \<open>Reading frames only shortens the list of frames left.\<close>

lemma recv_until_shorter:
  "recv_until k frames = (r, rest) \<Longrightarrow> length rest \<le> length frames"
  by (induction frames) (auto split: sum.splits bool.splits)

text \<open>Callbacks and logging leave the connection and the outside world alone.\<close>

lemma invoke_pending:
  "invoke recs ctxs i cbs w = (r, w') \<Longrightarrow> websocket w' = websocket w \<and> future w' = future w"
  by (induction cbs arbitrary: i w) (auto split: option.splits outcome.splits if_splits simp: Let_def)

lemma dispatch_pending:
  "dispatch s recs w = (r, w') \<Longrightarrow> websocket w' = websocket w \<and> future w' = future w"
  by (auto simp: dispatch_def split: option.splits dest: invoke_pending)

lemma listen_data_pending:
  "listen_data R data w = (r, w') \<Longrightarrow> websocket w' = websocket w \<and> future w' = future w"
  by (auto simp: listen_data_def split: sum.splits bool.splits option.splits dest: invoke_pending)

lemma listen_each_pending:
  "listen_each R datas w = (r, w') \<Longrightarrow> websocket w' = websocket w \<and> future w' = future w"
proof (induction datas arbitrary: w)
  case Nil
  then show ?case by simp
next
  case (Cons data datas)
  obtain r1 w1 where step: "listen_data R data w = (r1, w1)" by (cases "listen_data R data w")
  then have same: "websocket w1 = websocket w \<and> future w1 = future w"
    by (rule listen_data_pending)
  show ?case
  proof (cases r1)
    case (Inl e)
    with Cons.prems step same show ?thesis by simp
  next
    case (Inr u)
    with Cons.prems step have "listen_each R datas w1 = (r, w')" by simp
    with Cons.IH same show ?thesis by simp
  qed
qed

lemma listen_response_pending:
  "listen_response response w = (r, w') \<Longrightarrow> websocket w' = websocket w \<and> future w' = future w"
  by (auto simp: listen_response_def split: sum.splits bool.splits if_splits)

lemma listen_frame_pending:
  "listen_frame R response w = (r, w') \<Longrightarrow> websocket w' = websocket w \<and> future w' = future w"
  by (auto simp: listen_frame_def split: sum.splits bool.splits
      dest: listen_response_pending listen_each_pending)

text \<open>Subscribing reads frames from the connection and nothing else.\<close>

lemma ws_subscribe_pending:
  assumes "ws_subscribe R service flds cbs ctxs syms first_data w = (r, w')"
  shows "length (websocket w') \<le> length (websocket w) \<and> future w' = future w"
proof -
  obtain r1 ws1 where a: "recv_until ''response'' (websocket w) = (r1, ws1)"
    by (cases "recv_until ''response'' (websocket w)")
  then have l1: "length ws1 \<le> length (websocket w)" by (rule recv_until_shorter)
  obtain r2 ws2 where b: "recv_until ''data'' ws1 = (r2, ws2)"
    by (cases "recv_until ''data'' ws1")
  then have l2: "length ws2 \<le> length ws1" by (rule recv_until_shorter)
  show ?thesis
    using assms a b l1 l2
    by (auto simp: ws_subscribe_def Let_def
        split: sum.splits option.splits bool.splits if_splits
        dest!: dispatch_pending)
qed

lemma resubscribe_each_pending:
  "resubscribe_each R services w = (r, w') \<Longrightarrow>
     length (websocket w') \<le> length (websocket w) \<and> future w' = future w"
proof (induction services arbitrary: w)
  case Nil
  then show ?case by simp
next
  case (Cons service services)
  show ?case
  proof (cases "registry w service")
    case None
    with Cons show ?thesis by simp
  next
    case (Some params)
    obtain r1 w1 where step: "ws_subscribe R service (d_fields params) (cb_functions params)
        (cb_data params) (symbols params) (process_first_data params) w = (r1, w1)"
      by (cases "ws_subscribe R service (d_fields params) (cb_functions params)
        (cb_data params) (symbols params) (process_first_data params) w")
    then have le: "length (websocket w1) \<le> length (websocket w) \<and> future w1 = future w"
      by (rule ws_subscribe_pending)
    show ?thesis
    proof (cases r1)
      case (Inl e)
      with Cons.prems Some step le show ?thesis by simp
    next
      case (Inr u)
      with Cons.prems Some step have "resubscribe_each R services w1 = (r, w')" by simp
      from Cons.IH [OF this] le show ?thesis by simp
    qed
  qed
qed

text \<open>A new connection uses up one answer of the outside world.\<close>

lemma connect_with_pending:
  "connect_with account_id q a w = (Inr (Some c), w') \<Longrightarrow>
     future w' = future w \<and> (\<exists>frames. socket a = Some frames \<and> length (c_websocket c) \<le> length frames)"
  by (auto simp: connect_with_def Let_def
      split: option.splits if_splits prod.splits sum.splits dest: recv_until_shorter)

lemma connect_with_future:
  "connect_with account_id q a w = (r, w') \<Longrightarrow> future w' = future w"
  by (auto simp: connect_with_def Let_def
      split: option.splits if_splits prod.splits sum.splits)

lemma connect_loop_pending:
  "connect_loop account_id q attempts w = (Inr c, w') \<Longrightarrow>
     length (c_websocket c) +
       sum_list (map (\<lambda>a. Suc (case socket a of None \<Rightarrow> 0 | Some frames \<Rightarrow> length frames)) (future w'))
     < sum_list (map (\<lambda>a. Suc (case socket a of None \<Rightarrow> 0 | Some frames \<Rightarrow> length frames)) attempts)"
proof (induction attempts arbitrary: w)
  case Nil
  then show ?case by simp
next
  case (Cons a rest)
  obtain r1 w1 where step: "connect_with account_id q a (w\<lparr>future := rest\<rparr>) = (r1, w1)"
    by (cases "connect_with account_id q a (w\<lparr>future := rest\<rparr>)")
  then have fut: "future w1 = rest" using connect_with_future by fastforce
  show ?case
  proof (cases r1)
    case (Inl e)
    with Cons.prems step show ?thesis by simp
  next
    case (Inr res)
    show ?thesis
    proof (cases res)
      case None
      with Cons.prems step Inr have "connect_loop account_id q rest w1 = (Inr c, w')" by simp
      from Cons.IH [OF this] show ?thesis by simp
    next
      case (Some c1)
      with Cons.prems step Inr have eq: "c1 = c" "w1 = w'" by simp_all
      from step Inr Some eq connect_with_pending [of account_id q a "w\<lparr>future := rest\<rparr>" c w']
      obtain frames where "socket a = Some frames" "length (c_websocket c) \<le> length frames"
        by auto
      with fut eq show ?thesis by simp
    qed
  qed
qed

lemma reconnect_pending:
  assumes "reconnect R w = (Inr u, w')"
  shows "pending w' < pending w"
proof -
  obtain r1 w1 where loop: "connect_loop (account w) (qos w) (future w) w = (r1, w1)"
    by (cases "connect_loop (account w) (qos w) (future w) w")
  with assms obtain c where c: "r1 = Inr c" and re: "ws_resubscribe R (ws_update c w1) = (Inr u, w')"
    by (auto simp: reconnect_def split: sum.splits)
  from connect_loop_pending [of "account w" "qos w" "future w" w c w1] loop c
  have less: "pending (ws_update c w1) < pending w"
    by (simp add: pending_def ws_update_def)
  from re have "length (websocket w') \<le> length (websocket (ws_update c w1))
      \<and> future w' = future (ws_update c w1)"
    unfolding ws_resubscribe_def by (rule resubscribe_each_pending)
  then have "pending w' \<le> pending (ws_update c w1)" by (simp add: pending_def)
  with less show ?thesis by simp
qed

lemma listen_loop_returns:
  "pending w < n \<Longrightarrow> \<exists>r. listen_loop n R w = Some r"
proof (induction n arbitrary: w)
  case 0
  then show ?case by simp
next
  case (Suc n)
  show ?case
  proof (cases "done_flag w")
    case True
    then show ?thesis by simp
  next
    case False
    show ?thesis
    proof (cases "websocket w")
      case Nil
      obtain r1 w1 where step: "reconnect R w = (r1, w1)" by (cases "reconnect R w")
      show ?thesis
      proof (cases r1)
        case (Inl e)
        with False Nil step show ?thesis by simp
      next
        case (Inr u)
        with step have "pending w1 < pending w" using reconnect_pending by blast
        with Suc.prems have "pending w1 < n" by simp
        from Suc.IH [OF this] False Nil step Inr show ?thesis by simp
      qed
    next
      case (Cons response frames)
      show ?thesis
      proof (cases "response = JNull")
        case True
        obtain r1 w1 where step: "reconnect R (w\<lparr>websocket := frames\<rparr>) = (r1, w1)"
          by (cases "reconnect R (w\<lparr>websocket := frames\<rparr>)")
        show ?thesis
        proof (cases r1)
          case (Inl e)
          with False Cons True step show ?thesis by simp
        next
          case (Inr u)
          with step have "pending w1 < pending (w\<lparr>websocket := frames\<rparr>)"
            using reconnect_pending by blast
          also have "\<dots> < pending w" by (simp add: pending_def Cons)
          finally have "pending w1 < n" using Suc.prems by simp
          from Suc.IH [OF this] False Cons True step Inr show ?thesis by simp
        qed
      next
        case notnull: False
        obtain r1 w1 where step: "listen_frame R response (w\<lparr>websocket := frames\<rparr>) = (r1, w1)"
          by (cases "listen_frame R response (w\<lparr>websocket := frames\<rparr>)")
        then have "websocket w1 = frames \<and> future w1 = future w"
          using listen_frame_pending by fastforce
        then have "pending w1 < pending w" by (simp add: pending_def Cons)
        with Suc.prems have less: "pending w1 < n" by simp
        show ?thesis
        proof (cases r1)
          case (Inl e)
          with False Cons notnull step show ?thesis by simp
        next
          case (Inr u)
          from Suc.IH [OF less] False Cons notnull step Inr show ?thesis by simp
        qed
      qed
    qed
  qed
qed

text \<open>In the model \<^verbatim>\<open>ws_listen\<close> always returns: the bound on its rounds is never
  reached.\<close>

lemma ws_listen_returns: "\<exists>r. ws_listen R w = Some r"
  unfolding ws_listen_def by (rule listen_loop_returns) simp

section \<open>Helper facts about decoding\<close>

lemma subscript_Inr_obj:
  "subscript bar k = Inr raw \<Longrightarrow> \<exists>kvs. bar = JObj kvs \<and> map_of kvs k = Some raw"
  by (auto simp: subscript_def split: json.splits option.splits)







section \<open>Helper facts about the callbacks\<close>

lemma invoke_registry:
  "invoke recs ctxs i cbs w = (r, w') \<Longrightarrow> registry w' = registry w"
  by (induction cbs arbitrary: i w) (auto split: option.splits outcome.splits if_splits simp: Let_def)

lemma dispatch_registry:
  "dispatch s recs w = (r, w') \<Longrightarrow> registry w' = registry w"
  by (auto simp: dispatch_def split: option.splits dest: invoke_registry)

text \<open>The callbacks before the first one that raises are called, each with its own
  context; then the exception leaves the loop.\<close>

lemma invoke_raises:
  assumes "length before + k < length cs"
    and "\<forall>(c, ctx) \<in> set (zip before (drop k cs)). cb_run c recs ctx \<noteq> Raises"
    and "cb_run cb recs (cs ! (length before + k)) = Raises"
  shows "\<exists>w'. invoke recs (Some cs) k (before @ cb # after) w = (Inl CallbackError, w')
           \<and> calls w' = calls w @ map (\<lambda>(c, ctx). (cb_name c, recs, ctx)) (zip (before @ [cb]) (drop k cs))
           \<and> websocket w' = websocket w"
  using assms
proof (induction before arbitrary: k w)
  case Nil
  then have "drop k cs = cs ! k # drop (Suc k) cs"
    by (simp add: Cons_nth_drop_Suc)
  with Nil show ?case by (simp add: Let_def)
next
  case (Cons b bs)
  from Cons.prems(1) have k: "k < length cs" by simp
  then have dr: "drop k cs = cs ! k # drop (Suc k) cs"
    by (simp add: Cons_nth_drop_Suc)
  have b: "cb_run b recs (cs ! k) \<noteq> Raises"
    using Cons.prems(2) by (simp add: dr)
  have rest: "\<forall>(c, ctx) \<in> set (zip bs (drop (Suc k) cs)). cb_run c recs ctx \<noteq> Raises"
    using Cons.prems(2) by (simp add: dr)
  have len: "length bs + Suc k < length cs" using Cons.prems(1) by simp
  have last: "cb_run cb recs (cs ! (length bs + Suc k)) = Raises" using Cons.prems(3) by simp
  define w1 where "w1 = w\<lparr>calls := calls w @ [(cb_name b, recs, cs ! k)]\<rparr>"
  show ?case
  proof (cases "cb_run b recs (cs ! k)")
    case Returns
    from Cons.IH [OF len rest last, of w1] obtain w' where
      "invoke recs (Some cs) (Suc k) (bs @ cb # after) w1 = (Inl CallbackError, w')"
      "calls w' = calls w1 @ map (\<lambda>(c, ctx). (cb_name c, recs, ctx)) (zip (bs @ [cb]) (drop (Suc k) cs))"
      "websocket w' = websocket w1" by blast
    then show ?thesis using Returns k by (simp add: Let_def w1_def dr)
  next
    case SetsDone
    from Cons.IH [OF len rest last, of "w1\<lparr>done_flag := True\<rparr>"] obtain w' where
      "invoke recs (Some cs) (Suc k) (bs @ cb # after) (w1\<lparr>done_flag := True\<rparr>) = (Inl CallbackError, w')"
      "calls w' = calls w1 @ map (\<lambda>(c, ctx). (cb_name c, recs, ctx)) (zip (bs @ [cb]) (drop (Suc k) cs))"
      "websocket w' = websocket w1" by auto
    then show ?thesis using SetsDone k by (simp add: Let_def w1_def dr)
  next
    case Raises
    with b show ?thesis by simp
  qed
qed

text \<open>The loop over the elements of a data message goes through them in order and stops
  at the first exception; it leaves the entries of \<^verbatim>\<open>ws\<close> as they are.\<close>

lemma listen_each_append:
  "listen_each R (pre @ rest) w =
     (case listen_each R pre w of
        (Inl e, w') \<Rightarrow> (Inl e, w')
      | (Inr u, w') \<Rightarrow> listen_each R rest w')"
  by (induction pre arbitrary: w) (auto split: prod.splits sum.splits)

lemma listen_data_registry:
  "listen_data R data w = (r, w') \<Longrightarrow> registry w' = registry w"
  by (auto simp: listen_data_def split: sum.splits bool.splits option.splits dest: invoke_registry)

lemma listen_each_registry:
  "listen_each R datas w = (r, w') \<Longrightarrow> registry w' = registry w"
proof (induction datas arbitrary: w)
  case Nil
  then show ?case by simp
next
  case (Cons data datas)
  obtain r1 w1 where step: "listen_data R data w = (r1, w1)" by (cases "listen_data R data w")
  then have same: "registry w1 = registry w"
    by (rule listen_data_registry)
  show ?case
  proof (cases r1)
    case (Inl e)
    with Cons.prems step same show ?thesis by simp
  next
    case (Inr u)
    with Cons.prems step have "listen_each R datas w1 = (r, w')" by simp
    with Cons.IH same show ?thesis by simp
  qed
qed

text \<open>An element of a subscribed service that distils to records goes to the callbacks
  of that service.\<close>

lemma listen_data_subscribed:
  assumes "subscript data ''service'' = Inr sv"
    and "enum_call WSService_class sv = Inr service"
    and "registry w service = Some d"
    and "ws_distill_data R data = Inr (Some recs)"
  shows "listen_data R data w = invoke recs (cb_data d) 0 (cb_functions d) w"
proof -
  from assms(1) obtain kvs where "data = JObj kvs" and "map_of kvs ''service'' = Some sv"
    using subscript_Inr_obj by blast
  then have "py_in ''service'' data = Inr True"
    by (auto simp: py_in_def dest: map_of_SomeD intro: rev_image_eqI)
  with assms show ?thesis
    by (simp add: listen_data_def)
qed

section \<open>The claims\<close>

text \<open>
  C1. Replay after a reconnect. \<^verbatim>\<open>_ws_resubscribe\<close> loops over account activity, chart,
  option and quote only: a time-and-sales subscription is not sent again. With quotes and
  time and sales subscribed and the connection closed, \<^verbatim>\<open>ws_listen\<close> reconnects and sends
  the login and the quote subscription, and no request for time and sales, before it goes
  on reading; with time and sales alone, \<^verbatim>\<open>_ws_resubscribe\<close> does nothing at all.
\<close>

theorem timesale_not_resubscribed:
  "ws_resubscribe R (subscribed TIMESALE_EQUITY timesale_descriptor idle_session)
     = (Inr (), subscribed TIMESALE_EQUITY timesale_descriptor idle_session)
   \<and> map_option (\<lambda>r. (fst r, sent (snd r)))
       (ws_listen plain_runtime
          (subscribed TIMESALE_EQUITY timesale_descriptor
            (subscribed QUOTE (quote_descriptor [returning ''on_quote''] (Some [JStr ''quote context'']))
              (idle_session\<lparr>future :=
                 [accepting [response_frame 0, response_frame 0, data_message quote_data]]\<rparr>))))
     = Some (Inl ConnectError,
             [login_request ''123456789'' sample_principal 2,
              subscribe_request QUOTE [QuoteWSField WQ_SYMBOL, QuoteWSField WQ_BID_PRICE]
                (Some [''ABC'']) idle_session])"
proof
  show "ws_resubscribe R (subscribed TIMESALE_EQUITY timesale_descriptor idle_session)
     = (Inr (), subscribed TIMESALE_EQUITY timesale_descriptor idle_session)"
    by (simp add: ws_resubscribe_def resubscribed_services_def subscribed_def idle_session_def)
  show "map_option (\<lambda>r. (fst r, sent (snd r)))
       (ws_listen plain_runtime
          (subscribed TIMESALE_EQUITY timesale_descriptor
            (subscribed QUOTE (quote_descriptor [returning ''on_quote''] (Some [JStr ''quote context'']))
              (idle_session\<lparr>future :=
                 [accepting [response_frame 0, response_frame 0, data_message quote_data]]\<rparr>))))
     = Some (Inl ConnectError,
             [login_request ''123456789'' sample_principal 2,
              subscribe_request QUOTE [QuoteWSField WQ_SYMBOL, QuoteWSField WQ_BID_PRICE]
                (Some [''ABC'']) idle_session])"
    by code_simp
qed

text \<open>
  C2. A rejected login. When the login response carries code 3, \<^verbatim>\<open>ws_connect\<close> logs
  the failure and still returns the session dict with the open connection: no exception
  is raised and the result is not \<^verbatim>\<open>None\<close>.
\<close>

theorem rejected_login_returns_session:
  "ws_connect ''123456789'' 2 (idle_session\<lparr>future := [accepting [response_frame 3]]\<rparr>)
   = (Inr (Some \<lparr> c_account = ''123456789'', c_principal = sample_principal, c_websocket = [],
                    c_qos = 2, c_next_request_id = 1 \<rparr>),
      idle_session\<lparr>sent := [login_request ''123456789'' sample_principal 2],
                   errors := [FailedLogin (response_frame 3)]\<rparr>)"
  by (simp add: ws_connect_def connect_with_def idle_session_def accepting_def sample_principal_def
      response_frame_def response_rejected_def json_defs ne_zero_def)

text \<open>
  C3. Lookup of an unknown name. \<^verbatim>\<open>WSService\<close> and \<^verbatim>\<open>WSCommand\<close> do not define
  \<^verbatim>\<open>UNSUPPORTED\<close>, so for an unknown name the search raises \<^verbatim>\<open>AttributeError\<close>, where
  a class that defines the member returns it; a known name is found whatever its case. A
  data message that names an unknown service therefore ends \<^verbatim>\<open>ws_listen\<close> with that
  exception.
\<close>

theorem service_lookup_raises:
  "enum_call WSService_class (JStr ''FOO'') = Inl AttributeError
   \<and> enum_call WSCommand_class (JStr ''FOO'') = Inl AttributeError
   \<and> enum_call InstrumentType_class (JStr ''FOO'') = Inr IT_UNSUPPORTED
   \<and> enum_call WSService_class (JStr '' quote '') = Inr QUOTE
   \<and> map_option fst
        (ws_listen R (idle_session\<lparr>websocket := [data_message (JObj [(''service'', JStr ''FOO'')])]\<rparr>))
      = Some (Inl AttributeError)"
  by (simp add: enum_call_def enum_case_insensitive_search_by_value_def WSService_class_def
      WSCommand_class_def InstrumentType_class_def text_defs ws_listen_def listen_frame_def
      listen_data_def json_defs idle_session_def data_message_def)




text \<open>
  C5. Account activity with message type \<^verbatim>\<open>UROUT\<close>. The branch for \<^verbatim>\<open>UROUT\<close> is the one
  that names the status \<^verbatim>\<open>CANCELED\<close>, but reading \<^verbatim>\<open>tda.OrderStatus\<close> raises
  \<^verbatim>\<open>AttributeError\<close>: no record is returned.
\<close>

theorem acct_activity_urout_raises:
  "message_status ''UROUT'' = Some CANCELED \<and>
   ws_distill_data R
     (JObj [(''service'', JStr ''ACCT_ACTIVITY''),
            (''content'', JList [JObj [(''1'', JStr ''123456789''), (''2'', JStr ''UROUT''),
                                       (''3'', JStr ''<OrderCancelRequestMessage/>'')]])])
     = Inl AttributeError"
  by (simp add: message_status_def ws_distill_data_def enum_call_def WSService_class_def json_defs
      distill_acct_activity_def str_of_def text_defs)

text \<open>
  C6. The chart scenario. With \<^verbatim>\<open>int\<close> and \<^verbatim>\<open>float\<close> giving the values that Python
  gives on the three raw values, the element decodes to exactly one record: timestamp
  1700000000000, open price 10.0, high price 10.5 and symbol \<^verbatim>\<open>XYZ\<close>; the low price,
  the close price and the volume are not keys of the record.
\<close>

theorem chart_equity_scenario:
  assumes "py_int R (JInt 1700000000000) = Inr 1700000000000"
    and "py_float R (JStr ''10.0'') = Inr 10"
    and "py_float R (JStr ''10.5'') = Inr (21 / 2)"
  shows "\<exists>record. ws_distill_data R
           (JObj [(''service'', JStr ''CHART_EQUITY''),
                  (''content'', JList [JObj [(''key'', JStr ''XYZ''), (''1'', JStr ''10.0''),
                                             (''2'', JStr ''10.5''), (''7'', JInt 1700000000000)]])])
         = Inr (Some [record])
       \<and> record = [(ChartBar CB_TIMESTAMP, PInt 1700000000000), (ChartBar CB_OPEN_PRICE, PFloat 10),
            (ChartBar CB_HIGH_PRICE, PFloat (21 / 2)), (ChartBar CB_SYMBOL, Raw (JStr ''XYZ''))]
       \<and> map_of record (ChartBar CB_LOW_PRICE) = None
       \<and> map_of record (ChartBar CB_CLOSE_PRICE) = None
       \<and> map_of record (ChartBar CB_VOLUME) = None"
  using assms
  by (simp add: ws_distill_data_def enum_call_def WSService_class_def json_defs distill_list_def
      typed_record_def chart_field_map_items typecast_def str_nat.simps digit_char_def)

theorem chart_equity_scenario_witness:
  "py_int plain_runtime (JInt 1700000000000) = Inr 1700000000000
   \<and> py_float plain_runtime (JStr ''10.0'') = Inr 10
   \<and> py_float plain_runtime (JStr ''10.5'') = Inr (21 / 2)
   \<and> ws_distill_data plain_runtime
           (JObj [(''service'', JStr ''CHART_EQUITY''),
                  (''content'', JList [JObj [(''key'', JStr ''XYZ''), (''1'', JStr ''10.0''),
                                             (''2'', JStr ''10.5''), (''7'', JInt 1700000000000)]])])
       = Inr (Some [[(ChartBar CB_TIMESTAMP, PInt 1700000000000), (ChartBar CB_OPEN_PRICE, PFloat 10),
            (ChartBar CB_HIGH_PRICE, PFloat (21 / 2)), (ChartBar CB_SYMBOL, Raw (JStr ''XYZ''))]])"
proof -
  have a: "py_int plain_runtime (JInt 1700000000000) = Inr 1700000000000"
    by (simp add: plain_defs)
  have b: "py_float plain_runtime (JStr ''10.0'') = Inr 10"
    by (simp add: plain_defs text_defs)
  have c: "py_float plain_runtime (JStr ''10.5'') = Inr (21 / 2)"
    by (simp add: plain_defs text_defs)
  from chart_equity_scenario [OF a b c] a b c show ?thesis by auto
qed

text \<open>
  C7. After \<^verbatim>\<open>_ws_subscribe\<close> has returned, the entry of the service holds exactly the
  fields, symbols, flag, callbacks and contexts of that call, whatever the entry was
  before, and the entry of every other service is as it was.
\<close>

theorem subscribe_replaces_entry:
  assumes "ws_subscribe R service flds cbs ctxs syms first_data w = (Inr (), w')"
  shows "registry w' service =
           Some \<lparr> d_fields = flds, symbols = syms, process_first_data = first_data,
                  cb_functions = cbs, cb_data = ctxs \<rparr>
       \<and> (\<forall>other. other \<noteq> service \<longrightarrow> registry w' other = registry w other)"
  using assms
  by (auto simp: ws_subscribe_def Let_def
      split: prod.splits sum.splits option.splits bool.splits if_splits
      dest!: dispatch_registry)

text \<open>The theorem at a second quote subscription, made while quotes and charts are
  subscribed: the quote entry is the new one, the chart entry is untouched.\<close>

theorem subscribe_replaces_entry_witness:
  "fst (ws_subscribe plain_runtime QUOTE [QuoteWSField WQ_SYMBOL, QuoteWSField WQ_ASK_PRICE]
          [returning ''second_consumer''] (Some [JStr ''second context'']) (Some [''DEF'']) False
          (subscribed QUOTE (quote_descriptor [returning ''on_quote''] (Some [JStr ''quote context'']))
            (subscribed CHART_EQUITY chart_descriptor
              (idle_session\<lparr>websocket := [response_frame 0, data_message quote_data]\<rparr>))))
     = Inr ()
   \<and> registry (snd (ws_subscribe plain_runtime QUOTE [QuoteWSField WQ_SYMBOL, QuoteWSField WQ_ASK_PRICE]
          [returning ''second_consumer''] (Some [JStr ''second context'']) (Some [''DEF'']) False
          (subscribed QUOTE (quote_descriptor [returning ''on_quote''] (Some [JStr ''quote context'']))
            (subscribed CHART_EQUITY chart_descriptor
              (idle_session\<lparr>websocket := [response_frame 0, data_message quote_data]\<rparr>))))) QUOTE
     = Some \<lparr> d_fields = [QuoteWSField WQ_SYMBOL, QuoteWSField WQ_ASK_PRICE], symbols = Some [''DEF''],
              process_first_data = False, cb_functions = [returning ''second_consumer''],
              cb_data = Some [JStr ''second context''] \<rparr>
   \<and> registry (snd (ws_subscribe plain_runtime QUOTE [QuoteWSField WQ_SYMBOL, QuoteWSField WQ_ASK_PRICE]
          [returning ''second_consumer''] (Some [JStr ''second context'']) (Some [''DEF'']) False
          (subscribed QUOTE (quote_descriptor [returning ''on_quote''] (Some [JStr ''quote context'']))
            (subscribed CHART_EQUITY chart_descriptor
              (idle_session\<lparr>websocket := [response_frame 0, data_message quote_data]\<rparr>))))) CHART_EQUITY
     = Some chart_descriptor"
proof -
  define w where "w = subscribed QUOTE (quote_descriptor [returning ''on_quote''] (Some [JStr ''quote context'']))
            (subscribed CHART_EQUITY chart_descriptor
              (idle_session\<lparr>websocket := [response_frame 0, data_message quote_data]\<rparr>))"
  define res where "res = ws_subscribe plain_runtime QUOTE [QuoteWSField WQ_SYMBOL, QuoteWSField WQ_ASK_PRICE]
          [returning ''second_consumer''] (Some [JStr ''second context'']) (Some [''DEF'']) False w"
  have ok: "fst res = Inr ()"
    unfolding res_def w_def by code_simp
  then have "res = (Inr (), snd res)" by (cases res) simp
  from subscribe_replaces_entry [OF this [unfolded res_def]]
  have "registry (snd res) QUOTE =
          Some \<lparr> d_fields = [QuoteWSField WQ_SYMBOL, QuoteWSField WQ_ASK_PRICE], symbols = Some [''DEF''],
              process_first_data = False, cb_functions = [returning ''second_consumer''],
              cb_data = Some [JStr ''second context''] \<rparr>"
    and "registry (snd res) CHART_EQUITY = registry w CHART_EQUITY"
    by (simp_all add: res_def)
  moreover have "registry w CHART_EQUITY = Some chart_descriptor"
    by (simp add: w_def subscribed_def)
  ultimately show ?thesis using ok by (simp add: res_def w_def)
qed

text \<open>
  C8, as the code has it. Take any data message, with any number of elements, and any
  element of it whose service is subscribed and whose data distil to records, the elements
  before it having been handled without an exception. When a callback of that service
  raises, the exception is not caught: it ends the dispatch and \<^verbatim>\<open>ws_listen\<close>. The
  callbacks registered before it have been called, each with the decoded records and its
  own context; no callback registered after it is called, no element behind that one is
  dispatched, and the frames behind that message stay unread.
\<close>

theorem callback_exception_ends_listen:
  assumes "\<not> done_flag w"
    and "websocket w = message # frames"
    and "py_in ''notify'' message = Inr False"
    and "py_in ''response'' message = Inr False"
    and "subscript message ''data'' = Inr elements"
    and "py_iter elements = Inr (pre @ data # post)"
    and "listen_each R pre (w\<lparr>websocket := frames\<rparr>) = (Inr (), w2)"
    and "subscript data ''service'' = Inr sv"
    and "enum_call WSService_class sv = Inr service"
    and "registry w service = Some d"
    and "ws_distill_data R data = Inr (Some recs)"
    and "cb_functions d = before @ cb # after"
    and "cb_data d = Some ctxs"
    and "length before < length ctxs"
    and "\<forall>(c, ctx) \<in> set (zip before ctxs). cb_run c recs ctx \<noteq> Raises"
    and "cb_run cb recs (ctxs ! length before) = Raises"
  shows "\<exists>w'. ws_listen R w = Some (Inl CallbackError, w')
           \<and> calls w' = calls w2 @ map (\<lambda>(c, ctx). (cb_name c, recs, ctx)) (zip (before @ [cb]) ctxs)
           \<and> websocket w' = frames"
proof -
  define w1 where "w1 = w\<lparr>websocket := frames\<rparr>"
  from assms(5) obtain kvs where message: "message = JObj kvs" and "map_of kvs ''data'' = Some elements"
    using subscript_Inr_obj by blast
  then have has_data: "py_in ''data'' message = Inr True"
    by (auto simp: py_in_def dest: map_of_SomeD intro: rev_image_eqI)
  have frame: "listen_frame R message w1 = listen_each R (pre @ data # post) w1"
    using assms(3-6) has_data by (simp add: listen_frame_def)
  have pre: "listen_each R pre w1 = (Inr (), w2)"
    using assms(7) by (simp add: w1_def)
  then have "registry w2 = registry w1"
    by (rule listen_each_registry)
  then have entry: "registry w2 service = Some d"
    using assms(10) by (simp add: w1_def)
  from pre have "websocket w2 = websocket w1 \<and> future w2 = future w1"
    by (rule listen_each_pending)
  then have unread: "websocket w2 = frames"
    by (simp add: w1_def)
  have "listen_data R data w2 = invoke recs (Some ctxs) 0 (before @ cb # after) w2"
    using listen_data_subscribed [OF assms(8) assms(9) entry assms(11)] assms(12,13) by simp
  moreover obtain w' where
    "invoke recs (Some ctxs) 0 (before @ cb # after) w2 = (Inl CallbackError, w')"
    and called: "calls w' = calls w2 @ map (\<lambda>(c, ctx). (cb_name c, recs, ctx)) (zip (before @ [cb]) (drop 0 ctxs))"
    and same: "websocket w' = websocket w2"
    using invoke_raises [of before 0 ctxs recs cb after w2] assms(14-16) by auto
  ultimately have "listen_each R (data # post) w2 = (Inl CallbackError, w')"
    by simp
  then have "listen_each R (pre @ data # post) w1 = (Inl CallbackError, w')"
    using pre by (simp add: listen_each_append)
  then have "listen_frame R message w1 = (Inl CallbackError, w')"
    using frame by simp
  then have "ws_listen R w = Some (Inl CallbackError, w')"
    using assms(1,2) message by (simp add: ws_listen_def w1_def)
  with called same unread show ?thesis by simp
qed

text \<open>The theorem at a message with a chart element and two quote elements, charts and
  quotes subscribed, the second of three quote callbacks raising: the chart callback and
  the first two quote callbacks are called with their contexts, the third quote callback
  is not, the second quote element is not dispatched, and the next message stays
  unread.\<close>

theorem callback_exception_ends_listen_witness:
  "\<not> done_flag (subscribed QUOTE
        (quote_descriptor [returning ''first'', raising ''second'', returning ''third'']
           (Some [JStr ''a'', JStr ''b'', JStr ''c'']))
        (subscribed CHART_EQUITY chart_descriptor
          (idle_session\<lparr>websocket := [JObj [(''data'', JList [chart_data, quote_data, quote_data])],
                                        data_message quote_data]\<rparr>)))
   \<and> cb_run (raising ''second'')
        [[(Quote Q_BID_PRICE, PFloat (21 / 2)), (Quote Q_SYMBOL, Raw (JStr ''ABC''))]]
        ([JStr ''a'', JStr ''b'', JStr ''c''] ! length [returning ''first'']) = Raises
   \<and> (\<exists>w'. ws_listen plain_runtime
          (subscribed QUOTE
            (quote_descriptor [returning ''first'', raising ''second'', returning ''third'']
               (Some [JStr ''a'', JStr ''b'', JStr ''c'']))
            (subscribed CHART_EQUITY chart_descriptor
              (idle_session\<lparr>websocket := [JObj [(''data'', JList [chart_data, quote_data, quote_data])],
                                            data_message quote_data]\<rparr>)))
        = Some (Inl CallbackError, w')
      \<and> calls w' =
          [(''on_chart'', [[(ChartBar CB_VOLUME, PInt 100), (ChartBar CB_SYMBOL, Raw (JStr ''XYZ''))]],
            JStr ''chart context''),
           (''first'', [[(Quote Q_BID_PRICE, PFloat (21 / 2)), (Quote Q_SYMBOL, Raw (JStr ''ABC''))]],
            JStr ''a''),
           (''second'', [[(Quote Q_BID_PRICE, PFloat (21 / 2)), (Quote Q_SYMBOL, Raw (JStr ''ABC''))]],
            JStr ''b'')]
      \<and> websocket w' = [data_message quote_data])"
proof -
  define d where "d = quote_descriptor [returning ''first'', raising ''second'', returning ''third'']
           (Some [JStr ''a'', JStr ''b'', JStr ''c''])"
  define message where "message = JObj [(''data'', JList [chart_data, quote_data, quote_data])]"
  define w where "w = subscribed QUOTE d
        (subscribed CHART_EQUITY chart_descriptor
          (idle_session\<lparr>websocket := [message, data_message quote_data]\<rparr>))"
  define recs where "recs = [[(Quote Q_BID_PRICE, PFloat (21 / 2)), (Quote Q_SYMBOL, Raw (JStr ''ABC''))]]"
  define res where "res = listen_each plain_runtime [chart_data] (w\<lparr>websocket := [data_message quote_data]\<rparr>)"
  have h1: "\<not> done_flag w"
    by (simp add: w_def subscribed_def idle_session_def)
  have h2: "websocket w = message # [data_message quote_data]"
    by (simp add: w_def subscribed_def idle_session_def)
  have h3: "py_in ''notify'' message = Inr False"
    by (simp add: message_def py_in_def)
  have h4: "py_in ''response'' message = Inr False"
    by (simp add: message_def py_in_def)
  have h5: "subscript message ''data'' = Inr (JList [chart_data, quote_data, quote_data])"
    by (simp add: message_def subscript_def)
  have h6: "py_iter (JList [chart_data, quote_data, quote_data]) = Inr ([chart_data] @ quote_data # [quote_data])"
    by (simp add: py_iter_def)
  have ok: "fst res = Inr ()"
    unfolding res_def w_def d_def message_def by code_simp
  have first_calls: "calls (snd res) =
      [(''on_chart'', [[(ChartBar CB_VOLUME, PInt 100), (ChartBar CB_SYMBOL, Raw (JStr ''XYZ''))]],
        JStr ''chart context'')]"
    unfolding res_def w_def d_def message_def by code_simp
  from ok have "res = (Inr (), snd res)" by (cases res) simp
  then have h7: "listen_each plain_runtime [chart_data] (w\<lparr>websocket := [data_message quote_data]\<rparr>)
      = (Inr (), snd res)"
    by (simp add: res_def)
  have h8: "subscript quote_data ''service'' = Inr (JStr ''QUOTE'')"
    by (simp add: quote_data_def subscript_def)
  have h9: "enum_call WSService_class (JStr ''QUOTE'') = Inr QUOTE"
    by (simp add: enum_call_def WSService_class_def)
  have h10: "registry w QUOTE = Some d"
    by (simp add: w_def subscribed_def)
  have h11: "ws_distill_data plain_runtime quote_data = Inr (Some recs)"
    using quote_data_distilled by (simp add: recs_def)
  have h12: "cb_functions d = [returning ''first''] @ raising ''second'' # [returning ''third'']"
    by (simp add: d_def quote_descriptor_def)
  have h13: "cb_data d = Some [JStr ''a'', JStr ''b'', JStr ''c'']"
    by (simp add: d_def quote_descriptor_def)
  have h14: "length [returning ''first''] < length [JStr ''a'', JStr ''b'', JStr ''c'']"
    by simp
  have h15: "\<forall>(c, ctx) \<in> set (zip [returning ''first''] [JStr ''a'', JStr ''b'', JStr ''c'']).
      cb_run c recs ctx \<noteq> Raises"
    by (simp add: returning_def)
  have h16: "cb_run (raising ''second'') recs
      ([JStr ''a'', JStr ''b'', JStr ''c''] ! length [returning ''first'']) = Raises"
    by (simp add: raising_def)
  from callback_exception_ends_listen [OF h1 h2 h3 h4 h5 h6 h7 h8 h9 h10 h11 h12 h13 h14 h15 h16]
  obtain w' where "ws_listen plain_runtime w = Some (Inl CallbackError, w')"
    and "calls w' = calls (snd res) @ map (\<lambda>(c, ctx). (cb_name c, recs, ctx))
           (zip ([returning ''first''] @ [raising ''second'']) [JStr ''a'', JStr ''b'', JStr ''c''])"
    and "websocket w' = [data_message quote_data]"
    by blast
  then have "\<exists>w'. ws_listen plain_runtime w = Some (Inl CallbackError, w')
      \<and> calls w' = [(''on_chart'', [[(ChartBar CB_VOLUME, PInt 100), (ChartBar CB_SYMBOL, Raw (JStr ''XYZ''))]],
                      JStr ''chart context''),
                    (''first'', recs, JStr ''a''), (''second'', recs, JStr ''b'')]
      \<and> websocket w' = [data_message quote_data]"
    by (simp add: first_calls returning_def raising_def)
  with h1 h16 show ?thesis
    by (simp add: w_def d_def recs_def message_def)
qed

text \<open>
  Against C8 as stated: two callbacks are registered for quotes and the first one raises.
  \<^verbatim>\<open>ws_listen\<close> ends with the exception, the second callback is never called, and the
  second message is never read.
\<close>

theorem callback_exception_counterexample:
  "map_option (\<lambda>r. (fst r, map fst (calls (snd r)), websocket (snd r)))
     (ws_listen plain_runtime
        (subscribed QUOTE
           (quote_descriptor [raising ''first'', returning ''second''] (Some [JStr ''a'', JStr ''b'']))
           (idle_session\<lparr>websocket := [data_message quote_data, data_message quote_data]\<rparr>)))
   = Some (Inl CallbackError, [''first''], [data_message quote_data])"
  by code_simp

text \<open>
  C9. The first data frame of a subscription. A quote subscription is made with
  \<^verbatim>\<open>process_first_data\<close> while charts are subscribed, and the first data frame is a chart
  frame: the chart callback is called with it, the callback of the quote subscription is
  not called.
\<close>

theorem first_data_goes_to_frame_service:
  "(\<lambda>r. (fst r, calls (snd r)))
     (ws_subscribe plain_runtime QUOTE [QuoteWSField WQ_SYMBOL] [returning ''on_quote'']
        (Some [JStr ''quote context'']) (Some [''ABC'']) True
        (subscribed CHART_EQUITY chart_descriptor
           (idle_session\<lparr>websocket := [response_frame 0, data_message chart_data]\<rparr>)))
   = (Inr (),
      [(''on_chart'', [[(ChartBar CB_VOLUME, PInt 100), (ChartBar CB_SYMBOL, Raw (JStr ''XYZ''))]],
        JStr ''chart context'')])"
  by code_simp



end
